theory Spec2Isabelle
  imports Main
begin

section \<open>APS M2000 power analyzer clients: a shallow embedding\<close>

text \<open>
  The development follows the Python sources \<^verbatim>\<open>m2000_lan.py\<close>, \<^verbatim>\<open>m2000_rs232.py\<close>,
  \<^verbatim>\<open>m2000_usb.py\<close>, \<^verbatim>\<open>m2000_units.py\<close> and the streaming worker of
  \<^verbatim>\<open>m2000_web_ui.py\<close>.

  Conventions of the embedding:
  \<^item> a Python \<^verbatim>\<open>str\<close> is a \<^typ>\<open>string\<close> holding its UTF-8 bytes, so an ASCII string is
    itself and the two non-ASCII characters of the sources (the micro sign and the degree
    sign) are two bytes each; a byte string that is not UTF-8 stands for no \<^verbatim>\<open>str\<close>;
  \<^item> the interpreter is CPython 3.11 with its default settings, and \<^verbatim>\<open>print\<close> succeeds:
    what the methods print is not part of the model;
  \<^item> an exception is a value of \<^verbatim>\<open>error\<close>, a call that may raise returns
    \<^verbatim>\<open>error + 'a\<close>, and the client object is passed in and returned;
  \<^item> the instrument, the operating system and the clock are scripts: lists of the
    outcomes that successive library calls produce;
  \<^item> a Python \<^verbatim>\<open>float\<close> is an IEEE binary64 value: an integer significand and a binary
    exponent (or a negative zero, an infinity or NaN); every arithmetic operation rounds
    to the nearest binary64 value, ties to even.
\<close>

subsection \<open>Exceptions\<close>

datatype error =
    NotConnected       \<comment> \<open>\<^verbatim>\<open>Exception("Not connected to M2000")\<close>\<close>
  | SendTimeout        \<comment> \<open>\<^verbatim>\<open>Exception("Send timeout")\<close>\<close>
  | ReadTimeout        \<comment> \<open>\<^verbatim>\<open>Exception("Read timeout")\<close>\<close>
  | UsbWriteFailed     \<comment> \<open>\<^verbatim>\<open>Exception("USB write failed")\<close>\<close>
  | TransportError     \<comment> \<open>any other exception raised by the socket, serial or HID library\<close>
  | EncodeError        \<comment> \<open>\<^verbatim>\<open>UnicodeEncodeError\<close> of \<^verbatim>\<open>encode('ascii')\<close>\<close>
  | AttributeError     \<comment> \<open>attribute access on \<^verbatim>\<open>None\<close>\<close>
  | ValueError         \<comment> \<open>\<^verbatim>\<open>int()\<close> or \<^verbatim>\<open>time.sleep()\<close> on a bad argument\<close>
  | OverflowError      \<comment> \<open>\<^verbatim>\<open>time.sleep()\<close> on an argument out of range\<close>
  | ZeroDivisionError

subsection \<open>Strings\<close>

definition is_ascii_char :: "char \<Rightarrow> bool" where
  "is_ascii_char c = (\<not> digit7 c)"

definition is_ascii :: "string \<Rightarrow> bool" where
  "is_ascii s = list_all is_ascii_char s"

text \<open>
  The characters of a string, each as its bytes: a byte that is no continuation byte
  (\<open>0x80..0xBF\<close>) begins a character.
\<close>

definition continuation :: "char \<Rightarrow> bool" where
  "continuation c = (digit7 c \<and> \<not> digit6 c)"

fun chars_of :: "string \<Rightarrow> string list" where
  "chars_of [] = []"
| "chars_of [c] = [[c]]"
| "chars_of (c # d # cs) =
     (if continuation d
      then (case chars_of (d # cs) of
              g # gs \<Rightarrow> (c # g) # gs
            | [] \<Rightarrow> [[c]])
      else [c] # chars_of (d # cs))"

text \<open>
  The byte sequences that \<^verbatim>\<open>bytes.decode("utf-8")\<close> accepts as one character (no overlong
  forms, no surrogates, nothing above \<open>0x10FFFF\<close>), and the code point of a character.
\<close>

fun well_formed :: "nat list \<Rightarrow> bool" where
  "well_formed [b] = (b < 0x80)"
| "well_formed [b0, b1] = (0xC2 \<le> b0 \<and> b0 \<le> 0xDF)"
| "well_formed [b0, b1, b2] =
     ((b0 = 0xE0 \<and> 0xA0 \<le> b1) \<or> (0xE1 \<le> b0 \<and> b0 \<le> 0xEC) \<or> (b0 = 0xED \<and> b1 \<le> 0x9F) \<or>
      (0xEE \<le> b0 \<and> b0 \<le> 0xEF))"
| "well_formed [b0, b1, b2, b3] =
     ((b0 = 0xF0 \<and> 0x90 \<le> b1) \<or> (0xF1 \<le> b0 \<and> b0 \<le> 0xF3) \<or> (b0 = 0xF4 \<and> b1 \<le> 0x8F))"
| "well_formed bs = False"

definition utf8_valid :: "string \<Rightarrow> bool" where
  "utf8_valid s = list_all (\<lambda>ch. well_formed (map of_char ch)) (chars_of s)"

fun codepoint :: "nat list \<Rightarrow> nat" where
  "codepoint [b] = b"
| "codepoint [b0, b1] = (b0 - 0xC0) * 64 + (b1 - 0x80)"
| "codepoint [b0, b1, b2] = (b0 - 0xE0) * 4096 + (b1 - 0x80) * 64 + (b2 - 0x80)"
| "codepoint [b0, b1, b2, b3] =
     (b0 - 0xF0) * 262144 + (b1 - 0x80) * 4096 + (b2 - 0x80) * 64 + (b3 - 0x80)"
| "codepoint bs = 0"

text \<open>\<^verbatim>\<open>s.split(d)\<close> for a one-character separator: there is always at least one field.\<close>

fun split_on :: "char \<Rightarrow> string \<Rightarrow> string list" where
  "split_on d [] = [[]]"
| "split_on d (c # cs) =
     (if c = d then [] # split_on d cs
      else (case split_on d cs of
              f # fs \<Rightarrow> (c # f) # fs
            | [] \<Rightarrow> [[c]]))"

text \<open>\<^verbatim>\<open>sep.join(xs)\<close>.\<close>

fun join :: "string \<Rightarrow> string list \<Rightarrow> string" where
  "join sep [] = []"
| "join sep [x] = x"
| "join sep (x # y # ys) = x @ sep @ join sep (y # ys)"

text \<open>
  \<^verbatim>\<open>s.lower()\<close>. The ASCII capitals become small letters and the Kelvin sign (U+212A,
  the bytes \<open>E2 84 AA\<close>) becomes the letter k; it is the only character outside ASCII
  whose lower-case form lies in ASCII. Every other character outside ASCII is left as it
  is: its lower-case form lies outside ASCII as well, and a command that is not ASCII is
  not sent.
\<close>

definition ascii_lower :: "char \<Rightarrow> char" where
  "ascii_lower c =
     (case map_of (zip ''ABCDEFGHIJKLMNOPQRSTUVWXYZ'' ''abcdefghijklmnopqrstuvwxyz'') c of
        Some l \<Rightarrow> l
      | None \<Rightarrow> c)"

definition lower_char :: "string \<Rightarrow> string" where
  "lower_char ch = (if ch = [CHR 0xE2, CHR 0x84, CHR 0xAA] then ''k'' else map ascii_lower ch)"

definition lower :: "string \<Rightarrow> string" where
  "lower s = concat (map lower_char (chars_of s))"

text \<open>
  \<^verbatim>\<open>s.strip()\<close> removes the characters for which \<^verbatim>\<open>str.isspace\<close> holds. In ASCII these
  are tab, line feed, vertical tab, form feed, carriage return, the four separators
  \<open>0x1C..0x1F\<close> and the space.
\<close>

definition unicode_spaces :: "nat list" where
  "unicode_spaces =
     [0x09, 0x0A, 0x0B, 0x0C, 0x0D, 0x1C, 0x1D, 0x1E, 0x1F, 0x20, 0x85, 0xA0, 0x1680,
      0x2000, 0x2001, 0x2002, 0x2003, 0x2004, 0x2005, 0x2006, 0x2007, 0x2008, 0x2009,
      0x200A, 0x2028, 0x2029, 0x202F, 0x205F, 0x3000]"

definition is_space :: "string \<Rightarrow> bool" where
  "is_space ch = (codepoint (map of_char ch) \<in> set unicode_spaces)"

definition strip :: "string \<Rightarrow> string" where
  "strip s = concat (rev (dropWhile is_space (rev (dropWhile is_space (chars_of s)))))"

text \<open>\<^verbatim>\<open>sub in s\<close>.\<close>

fun starts_with :: "string \<Rightarrow> string \<Rightarrow> bool" where
  "starts_with [] s = True"
| "starts_with (p # ps) [] = False"
| "starts_with (p # ps) (c # cs) = (p = c \<and> starts_with ps cs)"

fun contains :: "string \<Rightarrow> string \<Rightarrow> bool" where
  "contains sub [] = (sub = [])"
| "contains sub (c # cs) = (starts_with sub (c # cs) \<or> contains sub cs)"

text \<open>
  \<^verbatim>\<open>s.endswith(suffix)\<close>, \<^verbatim>\<open>s[:-2]\<close> (all but the last two characters) and
  \<^verbatim>\<open>s.replace(";", "\r\n")\<close>.
\<close>

definition ends_with :: "string \<Rightarrow> string \<Rightarrow> bool" where
  "ends_with suffix s = starts_with (rev suffix) (rev s)"

definition drop_last2 :: "string \<Rightarrow> string" where
  "drop_last2 s = concat (take (length (chars_of s) - 2) (chars_of s))"

abbreviation LF :: char where "LF \<equiv> CHR 0x0A"
abbreviation CR :: char where "CR \<equiv> CHR 0x0D"

definition replace_semicolons :: "string \<Rightarrow> string" where
  "replace_semicolons s = concat (map (\<lambda>c. if c = CHR '';'' then [CR, LF] else [c]) s)"

text \<open>Truth value of an optional string: \<^verbatim>\<open>None\<close> and \<^verbatim>\<open>""\<close> are false.\<close>

fun truthy :: "string option \<Rightarrow> bool" where
  "truthy None = False"
| "truthy (Some s) = (s \<noteq> [])"

subsection \<open>Decimal digits\<close>

definition is_digit :: "char \<Rightarrow> bool" where
  "is_digit c = (c \<in> set ''0123456789'')"

definition digit_val :: "char \<Rightarrow> nat" where
  "digit_val c = length (takeWhile (\<lambda>d. d \<noteq> c) ''0123456789'')"

definition nat_of_digits :: "string \<Rightarrow> nat" where
  "nat_of_digits ds = foldl (\<lambda>a c. 10 * a + digit_val c) 0 ds"

definition digit_char :: "nat \<Rightarrow> char" where
  "digit_char d = ''0123456789'' ! d"

fun show_nat :: "nat \<Rightarrow> string" where
  "show_nat n = (if n < 10 then [digit_char n] else show_nat (n div 10) @ [digit_char (n mod 10)])"

declare show_nat.simps [simp del]

text \<open>Padding with zeros on the left, up to the width \<open>w\<close>.\<close>

fun zeros :: "nat \<Rightarrow> string" where
  "zeros n = (if n = 0 then [] else CHR ''0'' # zeros (n - 1))"

declare zeros.simps [simp del]

definition zero_pad :: "nat \<Rightarrow> string \<Rightarrow> string" where
  "zero_pad w s = zeros (w - length s) @ s"

subsection \<open>What \<^verbatim>\<open>int()\<close> and \<^verbatim>\<open>float()\<close> read\<close>

text \<open>
  The two builtins are those of CPython 3.11. Both first bring a string that is not
  ASCII into ASCII: a character below 127 stays, a white-space character becomes a
  space, a character with the Unicode property of a decimal digit becomes that digit,
  and any other character makes the conversion fail with \<^verbatim>\<open>ValueError\<close>. The decimal
  digits outside ASCII come in runs of ten; the list holds the zero of every run (Unicode
  14.0). An ASCII string is taken as it is.
\<close>

definition decimal_zeros :: "nat list" where
  "decimal_zeros =
     [0x660, 0x6F0, 0x7C0, 0x966, 0x9E6, 0xA66, 0xAE6, 0xB66, 0xBE6, 0xC66, 0xCE6,
      0xD66, 0xDE6, 0xE50, 0xED0, 0xF20, 0x1040, 0x1090, 0x17E0, 0x1810, 0x1946,
      0x19D0, 0x1A80, 0x1A90, 0x1B50, 0x1BB0, 0x1C40, 0x1C50, 0xA620, 0xA8D0, 0xA900,
      0xA9D0, 0xA9F0, 0xAA50, 0xABF0, 0xFF10, 0x104A0, 0x10D30, 0x11066, 0x110F0,
      0x11136, 0x111D0, 0x112F0, 0x11450, 0x114D0, 0x11650, 0x116C0, 0x11730, 0x118E0,
      0x11950, 0x11C50, 0x11D50, 0x11DA0, 0x16A60, 0x16AC0, 0x16B50, 0x1D7CE, 0x1D7D8,
      0x1D7E2, 0x1D7EC, 0x1D7F6, 0x1E140, 0x1E2F0, 0x1E950, 0x1FBF0]"

definition decimal_digit :: "nat \<Rightarrow> nat option" where
  "decimal_digit cp =
     map_option (\<lambda>z. cp - z) (find (\<lambda>z. z \<le> cp \<and> cp < z + 10) decimal_zeros)"

definition ascii_form :: "string \<Rightarrow> char option" where
  "ascii_form ch =
     (if codepoint (map of_char ch) < 127 then Some (hd ch)
      else if is_space ch then Some (CHR '' '')
      else map_option digit_char (decimal_digit (codepoint (map of_char ch))))"

definition numeric_text :: "string \<Rightarrow> string option" where
  "numeric_text s =
     (if is_ascii s then Some s
      else if utf8_valid s then those (map ascii_form (chars_of s))
      else None)"

text \<open>
  Around a number the two builtins skip the white space of C: tab, line feed, vertical
  tab, form feed, carriage return and the space, and not the separators \<open>0x1C..0x1F\<close>.
\<close>

definition c_space :: "char \<Rightarrow> bool" where
  "c_space c = (c \<in> set [CHR 0x09, CHR 0x0A, CHR 0x0B, CHR 0x0C, CHR 0x0D, CHR 0x20])"

definition c_strip :: "string \<Rightarrow> string" where
  "c_strip s = rev (dropWhile c_space (rev (dropWhile c_space s)))"

text \<open>
  Underscores in a numeric string are accepted only between two digits; they are removed
  before the number is read. The first argument is the previous character.
\<close>

fun strip_underscores :: "char \<Rightarrow> string \<Rightarrow> string option" where
  "strip_underscores prev [] = (if prev = CHR ''_'' then None else Some [])"
| "strip_underscores prev (c # cs) =
     (if c = CHR ''_'' then (if is_digit prev then strip_underscores c cs else None)
      else if prev = CHR ''_'' \<and> \<not> is_digit c then None
      else map_option ((#) c) (strip_underscores c cs))"

text \<open>Splitting off an optional sign; the flag says whether it was a minus.\<close>

fun split_sign :: "string \<Rightarrow> bool \<times> string" where
  "split_sign [] = (False, [])"
| "split_sign (c # cs) =
     (if c = CHR ''-'' then (True, cs) else if c = CHR ''+'' then (False, cs) else (False, c # cs))"

subsection \<open>The builtin \<^verbatim>\<open>int()\<close> on a string\<close>

text \<open>
  Base 10: white space around the number is skipped, then come an optional sign and at
  least one digit, with single underscores between digits. A number of more than 4300
  digits is refused (the interpreter's default limit; leading zeros count). Anything
  else raises \<^verbatim>\<open>ValueError\<close> as well (\<open>None\<close> here).
\<close>

definition int_literal :: "string \<Rightarrow> int option" where
  "int_literal t =
     (let (neg, body) = split_sign (c_strip t)
      in case strip_underscores (CHR 0x00) body of
           None \<Rightarrow> None
         | Some ds \<Rightarrow>
             if ds \<noteq> [] \<and> list_all is_digit ds \<and> length ds \<le> 4300
             then Some (if neg then - int (nat_of_digits ds) else int (nat_of_digits ds))
             else None)"

definition py_int :: "string \<Rightarrow> int option" where
  "py_int s = (case numeric_text s of None \<Rightarrow> None | Some t \<Rightarrow> int_literal t)"

subsection \<open>Binary64 floating point\<close>

text \<open>
  \<open>Finite m e\<close> is the number \<open>m * 2 ^ e\<close>, and \<open>NegZero\<close> is the zero with the minus sign.
  The values that rounding produces are the binary64 numbers in their standard form:
  the positive zero is \<open>Finite 0 0\<close>, and otherwise \<open>- 1074 \<le> e \<le> 971\<close>, \<open>\<bar>m\<bar> < 2 ^ 53\<close>,
  and \<open>2 ^ 52 \<le> \<bar>m\<bar>\<close> unless \<open>e = - 1074\<close>.
\<close>

datatype pyfloat = Finite int int | NegZero | PosInf | NegInf | NaN

text \<open>\<open>ndigits b n\<close> is the number of digits of \<open>n\<close> in base \<open>b\<close>.\<close>

fun ndigits :: "nat \<Rightarrow> nat \<Rightarrow> nat" where
  "ndigits b n = (if n = 0 \<or> b < 2 then 0 else Suc (ndigits b (n div b)))"

declare ndigits.simps [simp del]

text \<open>
  A quotient \<open>n / d\<close> of integers with \<open>0 < d\<close> is the exact value between two roundings.
  \<open>scale_le b k n d\<close> is \<open>b ^ k \<le> n / d\<close>, and \<open>ilog b n d\<close> is the integer \<open>k\<close> with
  \<open>b ^ k \<le> n / d < b ^ (k + 1)\<close>, for \<open>0 < n\<close>.
\<close>

definition scale_le :: "nat \<Rightarrow> int \<Rightarrow> int \<Rightarrow> int \<Rightarrow> bool" where
  "scale_le b k n d =
     (if 0 \<le> k then int b ^ nat k * d \<le> n else d \<le> n * int b ^ nat (- k))"

definition ilog :: "nat \<Rightarrow> int \<Rightarrow> int \<Rightarrow> int" where
  "ilog b n d =
     (let k = int (ndigits b (nat n)) - int (ndigits b (nat d))
      in if scale_le b k n d then k else k - 1)"

text \<open>Division of non-negative integers rounded to the nearest integer, ties to even.\<close>

definition div_half_even :: "int \<Rightarrow> int \<Rightarrow> int" where
  "div_half_even n d =
     (let q = n div d; r = n mod d
      in if 2 * r < d then q else if d < 2 * r then q + 1 else if even q then q else q + 1)"

text \<open>
  \<open>round_pos n d\<close> rounds \<open>n / d\<close> (both positive) to binary64: 53 significant bits, least
  exponent \<open>- 1074\<close>; the result is the significand and the exponent.
\<close>

definition round_pos :: "int \<Rightarrow> int \<Rightarrow> int \<times> int" where
  "round_pos n d =
     (let e = max (ilog 2 n d - 52) (- 1074);
          m = (if 0 \<le> e then div_half_even n (d * 2 ^ nat e)
               else div_half_even (n * 2 ^ nat (- e)) d)
      in if m = 2 ^ 53 then (2 ^ 52, e + 1) else (m, e))"

definition fzero :: pyfloat where
  "fzero = Finite 0 0"

text \<open>
  Rounding a signed quotient: a rounded magnitude of \<open>2 ^ 1024\<close> or more is an infinity,
  and a value that rounds to zero keeps its sign. The quotient zero is the positive
  zero.
\<close>

definition round_q :: "int \<Rightarrow> int \<Rightarrow> pyfloat" where
  "round_q n d =
     (if n = 0 then fzero
      else let (m, e) = round_pos \<bar>n\<bar> d
           in if 971 < e then (if 0 < n then PosInf else NegInf)
              else if m = 0 then (if 0 < n then fzero else NegZero)
              else Finite (if 0 < n then m else - m) e)"

text \<open>The exact value of a finite number as a quotient.\<close>

definition num_of :: "int \<Rightarrow> int \<Rightarrow> int" where
  "num_of m e = (if 0 \<le> e then m * 2 ^ nat e else m)"

definition den_of :: "int \<Rightarrow> int" where
  "den_of e = (if 0 \<le> e then 1 else 2 ^ nat (- e))"

text \<open>
  Multiplication and division by a positive integer constant, \<^verbatim>\<open>abs\<close>, and the
  comparison \<^verbatim>\<open>x >= c\<close>; the two zeros are equal.
\<close>

fun fmul_int :: "pyfloat \<Rightarrow> int \<Rightarrow> pyfloat" where
  "fmul_int (Finite m e) c = round_q (num_of m e * c) (den_of e)"
| "fmul_int f c = f"

fun fdiv_int :: "pyfloat \<Rightarrow> int \<Rightarrow> pyfloat" where
  "fdiv_int (Finite m e) c = round_q (num_of m e) (den_of e * c)"
| "fdiv_int f c = f"

fun fabs :: "pyfloat \<Rightarrow> pyfloat" where
  "fabs (Finite m e) = Finite \<bar>m\<bar> e"
| "fabs NegZero = fzero"
| "fabs NegInf = PosInf"
| "fabs f = f"

fun is_zero :: "pyfloat \<Rightarrow> bool" where
  "is_zero (Finite m e) = (m = 0)"
| "is_zero NegZero = True"
| "is_zero f = False"

fun fle :: "pyfloat \<Rightarrow> pyfloat \<Rightarrow> bool" where
  "fle (Finite m e) (Finite m' e') = (num_of m e * den_of e' \<le> num_of m' e' * den_of e)"
| "fle NegZero (Finite m' e') = (0 \<le> m')"
| "fle (Finite m e) NegZero = (m \<le> 0)"
| "fle NegZero NegZero = True"
| "fle NaN g = False"
| "fle f NaN = False"
| "fle NegInf g = True"
| "fle f PosInf = True"
| "fle f g = False"

definition fge :: "pyfloat \<Rightarrow> pyfloat \<Rightarrow> bool" where
  "fge f g = fle g f"

subsection \<open>The builtin \<^verbatim>\<open>float()\<close> on a string\<close>

text \<open>
  Underscores between digits are removed and white space around the number is skipped.
  Then comes an optional sign and either \<^verbatim>\<open>inf\<close>, \<^verbatim>\<open>infinity\<close> or \<^verbatim>\<open>nan\<close> in any
  case, or a decimal number: digits with an optional point (at least one digit before or
  after it) and an optional exponent. The value is rounded to binary64; a zero keeps
  the sign that was written. Anything else raises \<^verbatim>\<open>ValueError\<close> (\<open>None\<close> here).
\<close>

definition is_exp_char :: "char \<Rightarrow> bool" where
  "is_exp_char c = (c = CHR ''e'' \<or> c = CHR ''E'')"

text \<open>
  The digits of an exponent: one with more than nine digits after its leading zeros
  counts as 1100000000.
\<close>

definition exponent_value :: "string \<Rightarrow> nat" where
  "exponent_value ds =
     (if 9 < length (dropWhile (\<lambda>c. c = CHR ''0'') ds) then 1100000000 else nat_of_digits ds)"

text \<open>The exponent part: empty, or \<^verbatim>\<open>e\<close>, an optional sign and at least one digit.\<close>

fun parse_exponent :: "string \<Rightarrow> int option" where
  "parse_exponent [] = Some 0"
| "parse_exponent (c # cs) =
     (if is_exp_char c
      then (let (neg, ds) = split_sign cs
            in if ds \<noteq> [] \<and> list_all is_digit ds
               then Some (if neg then - int (exponent_value ds) else int (exponent_value ds))
               else None)
      else None)"

text \<open>
  The reader refuses a number of more than \<open>10 ^ 9\<close> digits, not counting leading zeros,
  and one of more than \<open>10 ^ 9\<close> digits after the point.
\<close>

definition too_long :: "string \<Rightarrow> string \<Rightarrow> bool" where
  "too_long ip fp =
     (1000000000 < length fp \<or>
      1000000000 <
        length (dropWhile (\<lambda>c. c = CHR ''0'') ip) +
        length (if dropWhile (\<lambda>c. c = CHR ''0'') ip = [] then dropWhile (\<lambda>c. c = CHR ''0'') fp
                else fp))"

text \<open>
  A decimal number is read as a natural number of digits and a power of ten:
  \<open>(n, k)\<close> stands for \<open>n * 10 ^ k\<close>.
\<close>

definition parse_decimal :: "string \<Rightarrow> (nat \<times> int) option" where
  "parse_decimal s =
     (let ip = takeWhile is_digit s;
          r1 = dropWhile is_digit s;
          (fp, r2) = (case r1 of
                        [] \<Rightarrow> ([], [])
                      | c # cs \<Rightarrow> if c = CHR ''.'' then (takeWhile is_digit cs, dropWhile is_digit cs)
                                  else ([], r1))
      in if (ip = [] \<and> fp = []) \<or> too_long ip fp then None
         else (case parse_exponent r2 of
                 None \<Rightarrow> None
               | Some ex \<Rightarrow> Some (nat_of_digits (ip @ fp), ex - int (length fp))))"

text \<open>The binary64 value nearest to \<open>n * 10 ^ k\<close>.\<close>

definition decimal :: "int \<Rightarrow> int \<Rightarrow> pyfloat" where
  "decimal n k = (if 0 \<le> k then round_q (n * 10 ^ nat k) 1 else round_q n (10 ^ nat (- k)))"

definition signed_decimal :: "bool \<Rightarrow> nat \<Rightarrow> int \<Rightarrow> pyfloat" where
  "signed_decimal neg n k =
     (if neg then (if n = 0 then NegZero else decimal (- int n) k) else decimal (int n) k)"

definition float_literal :: "string \<Rightarrow> pyfloat option" where
  "float_literal t =
     (let (neg, body) = split_sign t
      in if map ascii_lower body = ''inf'' \<or> map ascii_lower body = ''infinity''
         then Some (if neg then NegInf else PosInf)
         else if map ascii_lower body = ''nan'' then Some NaN
         else (case parse_decimal body of
                 None \<Rightarrow> None
               | Some (n, k) \<Rightarrow> Some (signed_decimal neg n k)))"

definition py_float :: "string \<Rightarrow> pyfloat option" where
  "py_float s =
     (case numeric_text s of
        None \<Rightarrow> None
      | Some t \<Rightarrow>
          (case strip_underscores (CHR 0x00) t of
             None \<Rightarrow> None
           | Some u \<Rightarrow> float_literal (c_strip u)))"

subsection \<open>Number formatting\<close>

text \<open>
  \<^verbatim>\<open>f"{x:.pf}"\<close>: the exact value of the binary64 number, rounded to \<open>p\<close> decimals
  (ties to even), with a minus sign for every negative value and for the negative zero.
\<close>

definition fixed_digits :: "nat \<Rightarrow> nat \<Rightarrow> string" where
  "fixed_digits p n =
     show_nat (n div 10 ^ p) @ (if p = 0 then [] else CHR ''.'' # zero_pad p (show_nat (n mod 10 ^ p)))"

fun fmt_f :: "nat \<Rightarrow> pyfloat \<Rightarrow> string" where
  "fmt_f p (Finite m e) =
     (if m < 0 then ''-'' else [])
     @ fixed_digits p (nat (div_half_even (num_of \<bar>m\<bar> e * 10 ^ p) (den_of e)))"
| "fmt_f p NegZero = ''-'' @ fixed_digits p 0"
| "fmt_f p PosInf = ''inf''"
| "fmt_f p NegInf = ''-inf''"
| "fmt_f p NaN = ''nan''"

text \<open>
  \<^verbatim>\<open>f"{x:.6g}"\<close>: six significant digits; fixed notation when the decimal exponent of
  the rounded value is in \<open>-4..5\<close>, scientific notation otherwise; trailing zeros and a
  trailing point are dropped.
\<close>

definition drop_trailing_zeros :: "string \<Rightarrow> string" where
  "drop_trailing_zeros s = rev (dropWhile (\<lambda>c. c = CHR ''0'') (rev s))"

definition with_fraction :: "string \<Rightarrow> string \<Rightarrow> string" where
  "with_fraction ip fp = (if fp = [] then ip else ip @ CHR ''.'' # fp)"

definition fmt_exponent :: "int \<Rightarrow> string" where
  "fmt_exponent e = (if e < 0 then ''e-'' else ''e+'') @ zero_pad 2 (show_nat (nat \<bar>e\<bar>))"

text \<open>The six significant digits of \<open>n / d\<close> as a number below \<open>10 ^ 6\<close>, and its decimal exponent.\<close>

definition six_digits :: "int \<Rightarrow> int \<Rightarrow> nat \<times> int" where
  "six_digits n d =
     (let e0 = ilog 10 n d;
          m0 = (if 5 \<le> e0 then div_half_even n (d * 10 ^ nat (e0 - 5))
                else div_half_even (n * 10 ^ nat (5 - e0)) d)
      in if m0 = 1000000 then (100000, e0 + 1) else (nat m0, e0))"

definition g_fixed :: "nat \<Rightarrow> nat \<Rightarrow> string" where
  "g_fixed s p =
     with_fraction (show_nat (s div 10 ^ p))
       (drop_trailing_zeros (zero_pad p (show_nat (s mod 10 ^ p))))"

definition g_scientific :: "nat \<Rightarrow> int \<Rightarrow> string" where
  "g_scientific s x =
     with_fraction (show_nat (s div 100000))
       (drop_trailing_zeros (zero_pad 5 (show_nat (s mod 100000))))
     @ fmt_exponent x"

fun g_digits :: "nat \<times> int \<Rightarrow> string" where
  "g_digits (s, x) =
     (if - 4 \<le> x \<and> x < 6 then g_fixed s (nat (5 - x)) else g_scientific s x)"

fun fmt_g6 :: "pyfloat \<Rightarrow> string" where
  "fmt_g6 (Finite m e) =
     (if m = 0 then ''0''
      else (if m < 0 then ''-'' else []) @ g_digits (six_digits (num_of \<bar>m\<bar> e) (den_of e)))"
| "fmt_g6 NegZero = ''-0''"
| "fmt_g6 PosInf = ''inf''"
| "fmt_g6 NegInf = ''-inf''"
| "fmt_g6 NaN = ''nan''"

subsection \<open>Unit formatting (\<^verbatim>\<open>m2000_units.py\<close>)\<close>

text \<open>
  A measurement value is what the decoder stores: a float or the raw string; the
  formatter also accepts \<^verbatim>\<open>None\<close>.
\<close>

datatype pyval = PyNone | PyFloat pyfloat | PyStr string

text \<open>The micro sign and the degree sign, in UTF-8.\<close>

definition micro :: string where
  "micro = [CHR 0xCE, CHR 0xBC]"

definition degree :: string where
  "degree = [CHR 0xC2, CHR 0xB0]"

definition unit_map :: "(string \<times> string) list" where
  "unit_map =
     [(''V'', ''V''), (''A'', ''A''), (''W'', ''W''), (''VA'', ''VA''), (''VAR'', ''VAR''),
      (''PF'', []), (''FREQ'', ''Hz''), (''PHASE'', degree), (''THDF'', ''%''),
      (''THDSIG'', ''%''), (''CF'', []), (''FF'', [])]"

definition get_base_unit :: "string \<Rightarrow> string" where
  "get_base_unit parameter = (case map_of unit_map parameter of Some u \<Rightarrow> u | None \<Rightarrow> [])"

text \<open>\<^verbatim>\<open>value is None or value == 0.0\<close>.\<close>

fun is_none_or_zero :: "pyval \<Rightarrow> bool" where
  "is_none_or_zero PyNone = True"
| "is_none_or_zero (PyFloat f) = is_zero f"
| "is_none_or_zero (PyStr s) = False"

text \<open>\<^verbatim>\<open>float(value)\<close>; \<open>None\<close> when it raises \<^verbatim>\<open>ValueError\<close> or \<^verbatim>\<open>TypeError\<close>.\<close>

fun to_float :: "pyval \<Rightarrow> pyfloat option" where
  "to_float PyNone = None"
| "to_float (PyFloat f) = Some f"
| "to_float (PyStr s) = py_float s"

text \<open>
  \<^verbatim>\<open>str(value)\<close> is reached only where \<^verbatim>\<open>float(value)\<close> has raised, that is, for a
  string that is not a number.
\<close>

fun to_str :: "pyval \<Rightarrow> string" where
  "to_str (PyStr s) = s"
| "to_str v = ''None''"

text \<open>A number, then the unit after a space when units are wanted.\<close>

definition with_unit :: "bool \<Rightarrow> string \<Rightarrow> string \<Rightarrow> string" where
  "with_unit include_units num u = (if include_units then num @ '' '' @ u else num)"

text \<open>
  The decades of voltage, current and power. The first argument says whether the mega
  range exists (it does for \<^verbatim>\<open>W\<close>, \<^verbatim>\<open>VA\<close> and \<^verbatim>\<open>VAR\<close>, not for \<^verbatim>\<open>V\<close> and \<^verbatim>\<open>A\<close>).
  The thresholds are the float literals of the source.
\<close>

definition scale_decades :: "bool \<Rightarrow> pyfloat \<Rightarrow> string \<Rightarrow> bool \<Rightarrow> string" where
  "scale_decades mega val u include_units =
     (if mega \<and> fge (fabs val) (decimal 1000000 0)
      then with_unit include_units (fmt_f 3 (fdiv_int val 1000000)) (''M'' @ u)
      else if fge (fabs val) (decimal 1000 0)
      then with_unit include_units (fmt_f 3 (fdiv_int val 1000)) (''k'' @ u)
      else if fge (fabs val) (decimal 1 0)
      then with_unit include_units (fmt_f 3 val) u
      else if fge (fabs val) (decimal 1 (- 3))
      then with_unit include_units (fmt_f 1 (fmul_int val 1000)) (''m'' @ u)
      else if fge (fabs val) (decimal 1 (- 6))
      then with_unit include_units (fmt_f 0 (fmul_int val 1000000)) (micro @ u)
      else with_unit include_units (fmt_f 0 (fmul_int val 1000000000)) (''n'' @ u))"

definition scale_freq :: "pyfloat \<Rightarrow> bool \<Rightarrow> string" where
  "scale_freq val include_units =
     (if fge (fabs val) (decimal 1000000 0)
      then with_unit include_units (fmt_f 3 (fdiv_int val 1000000)) ''MHz''
      else if fge (fabs val) (decimal 1000 0)
      then with_unit include_units (fmt_f 3 (fdiv_int val 1000)) ''kHz''
      else with_unit include_units (fmt_f 3 val) ''Hz'')"

definition format_scaled :: "pyfloat \<Rightarrow> string \<Rightarrow> bool \<Rightarrow> string" where
  "format_scaled val parameter include_units =
     (if parameter = ''PF'' then fmt_f 4 val
      else if parameter = ''PHASE''
      then (if include_units then fmt_f 2 val @ degree else fmt_f 2 val)
      else if parameter = ''V'' then scale_decades False val ''V'' include_units
      else if parameter = ''A'' then scale_decades False val ''A'' include_units
      else if parameter = ''W'' then scale_decades True val ''W'' include_units
      else if parameter = ''VA'' \<or> parameter = ''VAR''
      then scale_decades True val (get_base_unit parameter) include_units
      else if parameter = ''FREQ'' then scale_freq val include_units
      else if include_units \<and> get_base_unit parameter \<noteq> []
      then fmt_g6 val @ '' '' @ get_base_unit parameter
      else fmt_g6 val)"

definition format_measurement :: "pyval \<Rightarrow> string \<Rightarrow> bool \<Rightarrow> string" where
  "format_measurement v parameter include_units =
     (if is_none_or_zero v
      then (if include_units then ''0.000 '' @ get_base_unit parameter else ''0.000'')
      else (case to_float v of
              None \<Rightarrow> to_str v
            | Some val \<Rightarrow> format_scaled val parameter include_units))"

section \<open>The three transport clients\<close>

text \<open>
  Every client object has the flag \<^verbatim>\<open>connected\<close>, false after \<^verbatim>\<open>__init__\<close>, and a handle
  of its transport (\<^verbatim>\<open>socket\<close>, \<^verbatim>\<open>connection\<close> or \<^verbatim>\<open>device\<close>), \<^verbatim>\<open>None\<close> after
  \<^verbatim>\<open>__init__\<close>. The configuration fields (host, port, baud rate, vendor and product
  id) do not influence any branch and are left out; the read timeout of the USB client
  does and is kept.
\<close>

record client =
  connected :: bool

subsection \<open>LAN (\<^verbatim>\<open>m2000_lan.py\<close>)\<close>

text \<open>
  A TCP socket is a script of the outcomes of the successive \<^verbatim>\<open>recv(1)\<close> calls and of the
  successive \<^verbatim>\<open>sendall\<close> calls, the bytes sent so far, and whether \<^verbatim>\<open>close()\<close> was
  called. An exhausted receive script is a peer that stays silent (every further
  \<^verbatim>\<open>recv\<close> times out); an exhausted send script is a peer that accepts everything.
\<close>

datatype recv_result = RecvByte char | RecvEof | RecvTimeout | RecvError

datatype send_result = SendOk | SendTimedOut | SendError

record sock =
  incoming :: "recv_result list"
  send_results :: "send_result list"
  sent :: string
  closed :: bool

record lan_client = client +
  socket :: "sock option"

definition lan_init :: lan_client where
  "lan_init = \<lparr>connected = False, socket = None\<rparr>"

fun next_send :: "send_result list \<Rightarrow> send_result \<times> send_result list" where
  "next_send [] = (SendOk, [])"
| "next_send (r # rs) = (r, rs)"

text \<open>The transmission of \<^verbatim>\<open>send_command\<close>, after its guard.\<close>

definition sock_sendall :: "string \<Rightarrow> sock \<Rightarrow> (error + unit) \<times> sock" where
  "sock_sendall bytes s =
     (case next_send (send_results s) of
        (SendOk, rs) \<Rightarrow> (Inr (), s\<lparr>send_results := rs, sent := sent s @ bytes\<rparr>)
      | (SendTimedOut, rs) \<Rightarrow> (Inl SendTimeout, s\<lparr>send_results := rs\<rparr>)
      | (SendError, rs) \<Rightarrow> (Inl TransportError, s\<lparr>send_results := rs\<rparr>))"

definition lan_send_command :: "string \<Rightarrow> lan_client \<Rightarrow> (error + unit) \<times> lan_client" where
  "lan_send_command command c =
     (if connected c
      then (case socket c of
              None \<Rightarrow> (Inl NotConnected, c)
            | Some s \<Rightarrow>
                if is_ascii command
                then (case sock_sendall (command @ [LF]) s of
                        (r, s') \<Rightarrow> (r, c\<lparr>socket := Some s'\<rparr>))
                else (Inl EncodeError, c))
      else (Inl NotConnected, c))"

text \<open>
  The receive loop of \<^verbatim>\<open>read_response\<close>: one byte at a time up to a line feed or the
  end of the stream, carriage returns skipped. A timeout is re-raised as
  \<^verbatim>\<open>Exception("Read timeout")\<close>; any other exception (a failing \<^verbatim>\<open>recv\<close>, a byte that
  is not ASCII) is printed and the method returns \<^verbatim>\<open>None\<close>.
\<close>

fun recv_line :: "recv_result list \<Rightarrow> string \<Rightarrow> (error + string option) \<times> recv_result list" where
  "recv_line [] response = (Inl ReadTimeout, [])"
| "recv_line (RecvTimeout # rest) response = (Inl ReadTimeout, rest)"
| "recv_line (RecvError # rest) response = (Inr None, rest)"
| "recv_line (RecvEof # rest) response = (Inr (Some response), rest)"
| "recv_line (RecvByte b # rest) response =
     (if is_ascii_char b
      then (if b = LF then (Inr (Some response), rest)
            else if b \<noteq> CR then recv_line rest (response @ [b])
            else recv_line rest response)
      else (Inr None, rest))"

definition lan_read_response :: "lan_client \<Rightarrow> (error + string option) \<times> lan_client" where
  "lan_read_response c =
     (if connected c
      then (case socket c of
              None \<Rightarrow> (Inl NotConnected, c)
            | Some s \<Rightarrow>
                (case recv_line (incoming s) [] of
                   (r, rest) \<Rightarrow> (r, c\<lparr>socket := Some (s\<lparr>incoming := rest\<rparr>)\<rparr>)))
      else (Inl NotConnected, c))"

definition lan_query :: "string \<Rightarrow> lan_client \<Rightarrow> (error + string option) \<times> lan_client" where
  "lan_query command c =
     (case lan_send_command command c of
        (Inl e, c') \<Rightarrow> (Inl e, c')
      | (Inr u, c') \<Rightarrow> lan_read_response c')"

text \<open>\<^verbatim>\<open>response and 'APS' in response\<close>.\<close>

fun identified :: "string option \<Rightarrow> bool" where
  "identified None = False"
| "identified (Some r) = (r \<noteq> [] \<and> contains ''APS'' r)"

text \<open>
  \<^verbatim>\<open>connect()\<close>. The environment is the outcome of creating and connecting the socket;
  every exception inside the method is caught and makes it return \<^verbatim>\<open>False\<close>. The
  socket object is stored in the client before it is connected.
\<close>

datatype connect_result =
    SocketFailed | Gaierror | ConnectTimeout | ConnectionRefused | ConnectFailed | Connected sock

text \<open>The part of \<^verbatim>\<open>connect()\<close> after the transport is open, shared by its three versions.\<close>

definition handshake ::
  "(string \<Rightarrow> 'c \<Rightarrow> (error + unit) \<times> 'c) \<Rightarrow> (string \<Rightarrow> 'c \<Rightarrow> (error + string option) \<times> 'c) \<Rightarrow>
   ('c \<Rightarrow> 'c) \<Rightarrow> 'c \<Rightarrow> bool \<times> 'c" where
  "handshake send_command query set_connected c =
     (case send_command ''*RST'' c of
        (Inl e, c1) \<Rightarrow> (False, c1)
      | (Inr u, c1) \<Rightarrow>
          (case send_command ''*CLS'' c1 of
             (Inl e, c2) \<Rightarrow> (False, c2)
           | (Inr u, c2) \<Rightarrow>
               (case query ''*IDN?'' c2 of
                  (Inl e, c3) \<Rightarrow> (False, c3)
                | (Inr response, c3) \<Rightarrow>
                    if identified response then (True, set_connected c3) else (False, c3))))"

definition unconnected_sock :: sock where
  "unconnected_sock = \<lparr>incoming = [], send_results = [], sent = [], closed = False\<rparr>"

fun lan_connect :: "connect_result \<Rightarrow> lan_client \<Rightarrow> bool \<times> lan_client" where
  "lan_connect SocketFailed c = (False, c)"
| "lan_connect (Connected s) c =
     handshake lan_send_command lan_query (\<lambda>c. c\<lparr>connected := True\<rparr>) (c\<lparr>socket := Some s\<rparr>)"
| "lan_connect failure c = (False, c\<lparr>socket := Some unconnected_sock\<rparr>)"

text \<open>
  \<^verbatim>\<open>disconnect()\<close> never raises: the bare \<^verbatim>\<open>except\<close> swallows everything. The second
  component is the socket object that the client has let go of; \<^verbatim>\<open>close()\<close> is skipped
  when sending \<^verbatim>\<open>LOCAL\<close> raises.
\<close>

definition lan_disconnect :: "lan_client \<Rightarrow> lan_client \<times> sock option" where
  "lan_disconnect c =
     (case socket c of
        None \<Rightarrow> (c, None)
      | Some s \<Rightarrow>
          if connected c
          then (case lan_send_command ''LOCAL'' c of
                  (Inl e, c1) \<Rightarrow> (c1\<lparr>connected := False, socket := None\<rparr>, socket c1)
                | (Inr u, c1) \<Rightarrow>
                    (c1\<lparr>connected := False, socket := None\<rparr>,
                     map_option (\<lambda>s'. s'\<lparr>closed := True\<rparr>) (socket c1)))
          else (c\<lparr>connected := False, socket := None\<rparr>, Some (s\<lparr>closed := True\<rparr>)))"

subsection \<open>RS232 (\<^verbatim>\<open>m2000_rs232.py\<close>)\<close>

text \<open>
  A serial port is a script of the results of the successive \<^verbatim>\<open>read_until()\<close> calls
  (the bytes read, the terminator included, or what had arrived when the port's timeout
  struck, or a failure of the read), a script of the successive writes (whether
  \<^verbatim>\<open>write\<close> and \<^verbatim>\<open>flush\<close> succeed), and the text written so far. An exhausted read
  script is a silent instrument: \<^verbatim>\<open>read_until()\<close> returns nothing after the port's
  timeout.
\<close>

datatype serial_read = ReadBytes string | ReadFailed

record serial_port =
  is_open :: bool
  read_results :: "serial_read list"
  write_results :: "bool list"
  written :: string

record rs232_client = client +
  connection :: "serial_port option"

definition rs232_init :: rs232_client where
  "rs232_init = \<lparr>connected = False, connection = None\<rparr>"

fun next_write :: "bool list \<Rightarrow> bool \<times> bool list" where
  "next_write [] = (True, [])"
| "next_write (r # rs) = (r, rs)"

definition serial_write :: "string \<Rightarrow> serial_port \<Rightarrow> (error + unit) \<times> serial_port" where
  "serial_write bytes p =
     (case next_write (write_results p) of
        (True, rs) \<Rightarrow> (Inr (), p\<lparr>write_results := rs, written := written p @ bytes\<rparr>)
      | (False, rs) \<Rightarrow> (Inl TransportError, p\<lparr>write_results := rs\<rparr>))"

definition terminated :: "string \<Rightarrow> string" where
  "terminated command = (if ends_with [CR, LF] command then command else command @ [CR, LF])"

text \<open>
  The guard reads \<^verbatim>\<open>self.connection.is_open\<close> only when \<^verbatim>\<open>connected\<close> is true; on a
  client that has no connection object that read raises \<^verbatim>\<open>AttributeError\<close>.
\<close>

definition rs232_send_command :: "string \<Rightarrow> rs232_client \<Rightarrow> (error + unit) \<times> rs232_client" where
  "rs232_send_command command c =
     (if connected c
      then (case connection c of
              None \<Rightarrow> (Inl AttributeError, c)
            | Some p \<Rightarrow>
                if is_open p
                then (if is_ascii (terminated command)
                      then (case serial_write (terminated command) p of
                              (r, p') \<Rightarrow> (r, c\<lparr>connection := Some p'\<rparr>))
                      else (Inl EncodeError, c))
                else (Inl NotConnected, c))
      else (Inl NotConnected, c))"

fun next_read :: "serial_read list \<Rightarrow> serial_read \<times> serial_read list" where
  "next_read [] = (ReadBytes [], [])"
| "next_read (r # rs) = (r, rs)"

text \<open>
  The bytes are decoded as UTF-8, the last two characters are cut off, semicolons become
  line ends, then \<^verbatim>\<open>strip()\<close>. Bytes that are not UTF-8 make \<^verbatim>\<open>decode\<close> raise, and the
  handler returns \<^verbatim>\<open>None\<close>.
\<close>

fun serial_response :: "serial_read \<Rightarrow> string option" where
  "serial_response (ReadBytes b) =
     (if utf8_valid b then Some (strip (replace_semicolons (drop_last2 b))) else None)"
| "serial_response ReadFailed = None"

definition rs232_read_response :: "rs232_client \<Rightarrow> (error + string option) \<times> rs232_client" where
  "rs232_read_response c =
     (if connected c
      then (case connection c of
              None \<Rightarrow> (Inl AttributeError, c)
            | Some p \<Rightarrow>
                if is_open p
                then (case next_read (read_results p) of
                        (r, rs) \<Rightarrow>
                          (Inr (serial_response r), c\<lparr>connection := Some (p\<lparr>read_results := rs\<rparr>)\<rparr>))
                else (Inl NotConnected, c))
      else (Inl NotConnected, c))"

definition rs232_query :: "string \<Rightarrow> rs232_client \<Rightarrow> (error + string option) \<times> rs232_client" where
  "rs232_query command c =
     (case rs232_send_command command c of
        (Inl e, c') \<Rightarrow> (Inl e, c')
      | (Inr u, c') \<Rightarrow> rs232_read_response c')"

text \<open>
  \<^verbatim>\<open>connect()\<close>: the environment is the outcome of \<^verbatim>\<open>serial.Serial(...)\<close> and of the
  set-up calls on the open port (control lines, buffer resets).
\<close>

datatype serial_open = SerialException | Opened serial_port bool

fun rs232_connect :: "serial_open \<Rightarrow> rs232_client \<Rightarrow> bool \<times> rs232_client" where
  "rs232_connect SerialException c = (False, c)"
| "rs232_connect (Opened p setup_ok) c =
     (if setup_ok
      then handshake rs232_send_command rs232_query (\<lambda>c. c\<lparr>connected := True\<rparr>)
             (c\<lparr>connection := Some p\<rparr>)
      else (False, c\<lparr>connection := Some p\<rparr>))"

text \<open>\<^verbatim>\<open>disconnect()\<close> has no exception handler: what \<^verbatim>\<open>send_command\<close> raises, it raises.\<close>

definition rs232_disconnect :: "rs232_client \<Rightarrow> (error + unit) \<times> rs232_client" where
  "rs232_disconnect c =
     (case connection c of
        None \<Rightarrow> (Inr (), c)
      | Some p \<Rightarrow>
          if is_open p
          then (case rs232_send_command ''LOCAL'' c of
                  (Inl e, c1) \<Rightarrow> (Inl e, c1)
                | (Inr u, c1) \<Rightarrow>
                    (Inr (), c1\<lparr>connection := map_option (\<lambda>p'. p'\<lparr>is_open := False\<rparr>) (connection c1),
                                connected := False\<rparr>))
          else (Inr (), c))"

subsection \<open>Float arithmetic of the timing code\<close>

text \<open>
  Subtraction and division of two floats with the IEEE results for zeros, infinities and
  NaN; Python raises \<^verbatim>\<open>ZeroDivisionError\<close> on a zero divisor. Comparisons with NaN are
  false.
\<close>

fun fsub :: "pyfloat \<Rightarrow> pyfloat \<Rightarrow> pyfloat" where
  "fsub (Finite m e) (Finite m' e') =
     round_q (num_of m e * den_of e' - num_of m' e' * den_of e) (den_of e * den_of e')"
| "fsub NegZero (Finite m' e') = (if m' = 0 then NegZero else round_q (- num_of m' e') (den_of e'))"
| "fsub (Finite m e) NegZero = round_q (num_of m e) (den_of e)"
| "fsub NegZero NegZero = fzero"
| "fsub NaN g = NaN"
| "fsub f NaN = NaN"
| "fsub PosInf PosInf = NaN"
| "fsub NegInf NegInf = NaN"
| "fsub PosInf g = PosInf"
| "fsub NegInf g = NegInf"
| "fsub f PosInf = NegInf"
| "fsub f NegInf = PosInf"

text \<open>The sign of a quotient that is zero: minus when exactly one operand is negative.\<close>

definition signed_zero :: "bool \<Rightarrow> pyfloat" where
  "signed_zero neg = (if neg then NegZero else fzero)"

fun fdiv :: "pyfloat \<Rightarrow> pyfloat \<Rightarrow> error + pyfloat" where
  "fdiv f NegZero = Inl ZeroDivisionError"
| "fdiv (Finite m e) (Finite m' e') =
     (if m' = 0 then Inl ZeroDivisionError
      else if m = 0 then Inr (signed_zero (m' < 0))
      else Inr (round_q (sgn m' * num_of m e * den_of e') (den_of e * num_of \<bar>m'\<bar> e')))"
| "fdiv NegZero (Finite m' e') =
     (if m' = 0 then Inl ZeroDivisionError else Inr (signed_zero (0 < m')))"
| "fdiv NaN (Finite m' e') = (if m' = 0 then Inl ZeroDivisionError else Inr NaN)"
| "fdiv PosInf (Finite m' e') =
     (if m' = 0 then Inl ZeroDivisionError else Inr (if m' < 0 then NegInf else PosInf))"
| "fdiv NegInf (Finite m' e') =
     (if m' = 0 then Inl ZeroDivisionError else Inr (if m' < 0 then PosInf else NegInf))"
| "fdiv (Finite m e) PosInf = Inr (signed_zero (m < 0))"
| "fdiv (Finite m e) NegInf = Inr (signed_zero (0 \<le> m))"
| "fdiv NegZero PosInf = Inr NegZero"
| "fdiv NegZero NegInf = Inr fzero"
| "fdiv f g = Inr NaN"

definition flt :: "pyfloat \<Rightarrow> pyfloat \<Rightarrow> bool" where
  "flt f g = (fle f g \<and> \<not> fle g f)"

definition fgt :: "pyfloat \<Rightarrow> pyfloat \<Rightarrow> bool" where
  "fgt f g = flt g f"

text \<open>The comparison \<^verbatim>\<open>x > n\<close> of a float with an \<^verbatim>\<open>int\<close>, which Python makes exactly.\<close>

fun fgt_int :: "pyfloat \<Rightarrow> int \<Rightarrow> bool" where
  "fgt_int (Finite m e) n = (n * den_of e < num_of m e)"
| "fgt_int NegZero n = (n < 0)"
| "fgt_int PosInf n = True"
| "fgt_int f n = False"

text \<open>The float of an integer.\<close>

definition float_of_int :: "int \<Rightarrow> pyfloat" where
  "float_of_int n = round_q n 1"

definition one :: pyfloat where
  "one = float_of_int 1"

text \<open>
  \<^verbatim>\<open>time.sleep(secs)\<close> on a float, in CPython 3.11: NaN raises \<^verbatim>\<open>ValueError\<close>; the
  seconds are multiplied by \<open>10 ^ 9\<close>, and a product outside \<open>- 2 ^ 63 \<le> ns < 2 ^ 63\<close>
  raises \<^verbatim>\<open>OverflowError\<close>; then a negative length raises \<^verbatim>\<open>ValueError\<close>. The
  operating system is taken to accept every length that passes these checks.
\<close>

definition sleep_error :: "pyfloat \<Rightarrow> error option" where
  "sleep_error secs =
     (if secs = NaN then Some ValueError
      else if fle (Finite (- 9223372036854775808) 0) (fmul_int secs 1000000000) \<and>
              flt (fmul_int secs 1000000000) (Finite 9223372036854775808 0)
      then (if flt (fmul_int secs 1000000000) fzero then Some ValueError else None)
      else Some OverflowError)"

subsection \<open>USB HID (\<^verbatim>\<open>m2000_usb.py\<close>)\<close>

text \<open>
  A HID device is a script of the results of the successive \<^verbatim>\<open>read(64, timeout_ms=100)\<close>
  calls (a report, possibly empty, or an exception), a script of the results of the
  successive \<^verbatim>\<open>write\<close> calls, and the reports written so far. An exhausted read script
  is a silent device. The clock is the list of the values that the successive
  \<^verbatim>\<open>time.time()\<close> calls return; where it is exhausted the model stops with \<open>None\<close>: the
  call has not returned yet.
\<close>

datatype hid_read = HidData "char list" | HidError

datatype hid_write = Written | WriteNegative | WriteRaises

record hid_device =
  reads :: "hid_read list"
  writes :: "hid_write list"
  reports :: "char list list"
  dev_closed :: bool

record usb_client = client +
  device :: "hid_device option"
  timeout :: int

definition usb_init :: "int \<Rightarrow> usb_client" where
  "usb_init ms = \<lparr>connected = False, device = None, timeout = ms\<rparr>"

text \<open>The command bytes in pieces of at most 63, as \<^verbatim>\<open>range(0, len(cmd_bytes), 63)\<close> cuts them.\<close>

fun chunks :: "string \<Rightarrow> string list" where
  "chunks [] = []"
| "chunks (c # cs) = take 63 (c # cs) # chunks (drop 63 (c # cs))"

text \<open>A report: the report id 0, the piece, and zeros up to 64 bytes.\<close>

definition report_of :: "string \<Rightarrow> char list" where
  "report_of chunk = CHR 0x00 # chunk @ replicate (63 - length chunk) (CHR 0x00)"

fun next_hid_write :: "hid_write list \<Rightarrow> hid_write \<times> hid_write list" where
  "next_hid_write [] = (Written, [])"
| "next_hid_write (r # rs) = (r, rs)"

fun write_reports :: "string list \<Rightarrow> hid_device \<Rightarrow> (error + unit) \<times> hid_device" where
  "write_reports [] d = (Inr (), d)"
| "write_reports (chunk # rest) d =
     (case next_hid_write (writes d) of
        (Written, ws) \<Rightarrow>
          write_reports rest (d\<lparr>writes := ws, reports := reports d @ [report_of chunk]\<rparr>)
      | (WriteNegative, ws) \<Rightarrow> (Inl UsbWriteFailed, d\<lparr>writes := ws\<rparr>)
      | (WriteRaises, ws) \<Rightarrow> (Inl TransportError, d\<lparr>writes := ws\<rparr>))"

definition usb_send_command :: "string \<Rightarrow> usb_client \<Rightarrow> (error + unit) \<times> usb_client" where
  "usb_send_command command c =
     (if connected c
      then (case device c of
              None \<Rightarrow> (Inl NotConnected, c)
            | Some d \<Rightarrow>
                if is_ascii command
                then (case write_reports (chunks (command @ [LF])) d of
                        (r, d') \<Rightarrow> (r, c\<lparr>device := Some d'\<rparr>))
                else (Inl EncodeError, c))
      else (Inl NotConnected, c))"

text \<open>
  The \<^verbatim>\<open>for\<close> loop over \<^verbatim>\<open>data[1:]\<close>: it returns the response at a line feed, skips a
  carriage return, appends a printable character, and breaks at a zero byte or at any
  other byte.
\<close>

datatype scan = Return string | Continue string

definition printable :: "char \<Rightarrow> bool" where
  "printable b = ((32::nat) \<le> of_char b \<and> (of_char b :: nat) \<le> 126)"

fun scan_report :: "char list \<Rightarrow> string \<Rightarrow> scan" where
  "scan_report [] response = Continue response"
| "scan_report (b # bs) response =
     (if b = CHR 0x00 then Continue response
      else if b = LF then Return response
      else if b = CR then scan_report bs response
      else if printable b then scan_report bs (response @ [b])
      else Continue response)"

text \<open>\<^verbatim>\<open>(time.time() - start_time) * 1000 > self.timeout\<close>.\<close>

definition timed_out :: "pyfloat \<Rightarrow> pyfloat \<Rightarrow> int \<Rightarrow> bool" where
  "timed_out now start_time ms = fgt_int (fmul_int (fsub now start_time) 1000) ms"

text \<open>
  The \<^verbatim>\<open>while True\<close> loop of \<^verbatim>\<open>read_response\<close>, one clock value per iteration. The
  \<^verbatim>\<open>raise Exception("Read timeout")\<close> stands inside the outer \<^verbatim>\<open>try\<close>, whose handler
  prints the exception and returns \<^verbatim>\<open>None\<close>: the result at a timeout is \<open>Some None\<close>.
\<close>

fun read_loop ::
  "pyfloat \<Rightarrow> int \<Rightarrow> string \<Rightarrow> pyfloat list \<Rightarrow> hid_read list \<Rightarrow>
   string option option \<times> pyfloat list \<times> hid_read list" where
  "read_loop start_time ms response [] rs = (None, [], rs)"
| "read_loop start_time ms response (now # clock) rs =
     (if timed_out now start_time ms then (Some None, clock, rs)
      else (case rs of
              [] \<Rightarrow> read_loop start_time ms response clock []
            | HidError # rs' \<Rightarrow> read_loop start_time ms response clock rs'
            | HidData [] # rs' \<Rightarrow> read_loop start_time ms response clock rs'
            | HidData (report_id # payload) # rs' \<Rightarrow>
                (case scan_report payload response of
                   Return r \<Rightarrow> (Some (Some r), clock, rs')
                 | Continue r \<Rightarrow> read_loop start_time ms r clock rs')))"

text \<open>
  \<^verbatim>\<open>read_response\<close>: the result is \<open>None\<close> while the call has not returned, and else the
  exception or the value, with the rest of the clock.
\<close>

definition usb_read_response ::
  "pyfloat list \<Rightarrow> usb_client \<Rightarrow> ((error + string option) \<times> pyfloat list \<times> usb_client) option" where
  "usb_read_response clock c =
     (if connected c
      then (case device c of
              None \<Rightarrow> Some (Inl NotConnected, clock, c)
            | Some d \<Rightarrow>
                (case clock of
                   [] \<Rightarrow> None
                 | start_time # clock' \<Rightarrow>
                     (case read_loop start_time (timeout c) [] clock' (reads d) of
                        (None, clock'', rs) \<Rightarrow> None
                      | (Some r, clock'', rs) \<Rightarrow>
                          Some (Inr r, clock'', c\<lparr>device := Some (d\<lparr>reads := rs\<rparr>)\<rparr>))))
      else Some (Inl NotConnected, clock, c))"

definition usb_query ::
  "string \<Rightarrow> pyfloat list \<Rightarrow> usb_client \<Rightarrow> ((error + string option) \<times> pyfloat list \<times> usb_client) option" where
  "usb_query command clock c =
     (case usb_send_command command c of
        (Inl e, c') \<Rightarrow> Some (Inl e, clock, c')
      | (Inr u, c') \<Rightarrow> usb_read_response clock c')"

text \<open>
  \<^verbatim>\<open>connect(device_index)\<close>. The environment: what \<^verbatim>\<open>hid.enumerate\<close> returns (the
  number of devices, or an exception), whether printing the device information raises,
  and the device object with the outcome of opening it. The device object is stored in
  the client before it is opened.
\<close>

record usb_env =
  enumerated :: "nat option"
  describe_ok :: bool
  open_ok :: bool
  new_device :: hid_device

definition usb_connect ::
  "int \<Rightarrow> usb_env \<Rightarrow> pyfloat list \<Rightarrow> usb_client \<Rightarrow> (bool \<times> pyfloat list \<times> usb_client) option" where
  "usb_connect device_index env clock c =
     (case enumerated env of
        None \<Rightarrow> Some (False, clock, c)
      | Some n \<Rightarrow>
          if n = 0 then Some (False, clock, c)
          else if int n \<le> device_index then Some (False, clock, c)
          else if describe_ok env
          then (let c0 = c\<lparr>device := Some (new_device env)\<rparr>
                in if open_ok env
                   then (case usb_send_command ''*RST'' c0 of
                           (Inl e, c1) \<Rightarrow> Some (False, clock, c1)
                         | (Inr u, c1) \<Rightarrow>
                             (case usb_send_command ''*CLS'' c1 of
                                (Inl e, c2) \<Rightarrow> Some (False, clock, c2)
                              | (Inr u, c2) \<Rightarrow>
                                  (case usb_query ''*IDN?'' clock c2 of
                                     None \<Rightarrow> None
                                   | Some (Inl e, clock', c3) \<Rightarrow> Some (False, clock', c3)
                                   | Some (Inr response, clock', c3) \<Rightarrow>
                                       if identified response
                                       then Some (True, clock', c3\<lparr>connected := True\<rparr>)
                                       else Some (False, clock', c3))))
                   else Some (False, clock, c0))
          else Some (False, clock, c))"

text \<open>\<^verbatim>\<open>disconnect()\<close>, as for the LAN client.\<close>

definition usb_disconnect :: "usb_client \<Rightarrow> usb_client \<times> hid_device option" where
  "usb_disconnect c =
     (case device c of
        None \<Rightarrow> (c, None)
      | Some d \<Rightarrow>
          if connected c
          then (case usb_send_command ''LOCAL'' c of
                  (Inl e, c1) \<Rightarrow> (c1\<lparr>connected := False, device := None\<rparr>, device c1)
                | (Inr u, c1) \<Rightarrow>
                    (c1\<lparr>connected := False, device := None\<rparr>,
                     map_option (\<lambda>d'. d'\<lparr>dev_closed := True\<rparr>) (device c1)))
          else (c\<lparr>connected := False, device := None\<rparr>, Some (d\<lparr>dev_closed := True\<rparr>)))"

section \<open>Protocol operations\<close>

subsection \<open>\<^verbatim>\<open>check_errors\<close>\<close>

text \<open>
  What \<^verbatim>\<open>check_errors\<close> makes of the reply to \<^verbatim>\<open>*ERR?\<close>; the three clients have the same
  text. \<^verbatim>\<open>int(error_code)\<close> raises \<^verbatim>\<open>ValueError\<close> on a string that is no integer, and
  nothing catches it.
\<close>

definition check_errors_result :: "string option \<Rightarrow> error + int" where
  "check_errors_result error_code =
     (case error_code of
        None \<Rightarrow> Inr 0
      | Some s \<Rightarrow>
          if s \<noteq> [] \<and> s \<noteq> ''0''
          then (case py_int s of None \<Rightarrow> Inl ValueError | Some n \<Rightarrow> Inr n)
          else Inr 0)"

definition lan_check_errors :: "lan_client \<Rightarrow> (error + int) \<times> lan_client" where
  "lan_check_errors c =
     (case lan_query ''*ERR?'' c of
        (Inl e, c') \<Rightarrow> (Inl e, c')
      | (Inr error_code, c') \<Rightarrow> (check_errors_result error_code, c'))"

definition rs232_check_errors :: "rs232_client \<Rightarrow> (error + int) \<times> rs232_client" where
  "rs232_check_errors c =
     (case rs232_query ''*ERR?'' c of
        (Inl e, c') \<Rightarrow> (Inl e, c')
      | (Inr error_code, c') \<Rightarrow> (check_errors_result error_code, c'))"

definition usb_check_errors ::
  "pyfloat list \<Rightarrow> usb_client \<Rightarrow> ((error + int) \<times> pyfloat list \<times> usb_client) option" where
  "usb_check_errors clock c =
     (case usb_query ''*ERR?'' clock c of
        None \<Rightarrow> None
      | Some (Inl e, clock', c') \<Rightarrow> Some (Inl e, clock', c')
      | Some (Inr error_code, clock', c') \<Rightarrow> Some (check_errors_result error_code, clock', c'))"

subsection \<open>\<^verbatim>\<open>get_measurement\<close>: the request\<close>

text \<open>
  The three clients build the request and decode the reply with the same text. The
  nested loops run over the parameters (outer) and the channels (inner).
\<close>

definition m2000_param :: "string \<Rightarrow> string" where
  "m2000_param param =
     (if param = ''V'' then ''VOLTS''
      else if param = ''A'' then ''AMPS''
      else if param = ''W'' then ''WATTS''
      else param)"

definition read_field :: "string \<Rightarrow> string \<Rightarrow> string" where
  "read_field channel param = ''READ?,'' @ lower channel @ '':'' @ m2000_param param @ '':ACDC''"

definition read_fields :: "string list \<Rightarrow> string list \<Rightarrow> string list" where
  "read_fields channels parameters =
     concat (map (\<lambda>param. map (\<lambda>channel. read_field channel param) channels) parameters)"

definition build_command :: "string list \<Rightarrow> string list \<Rightarrow> string" where
  "build_command channels parameters = join '';'' (read_fields channels parameters)"

subsection \<open>\<^verbatim>\<open>get_measurement\<close>: the reply\<close>

text \<open>
  The result is a Python \<^verbatim>\<open>dict\<close>: an association list in insertion order, where an
  assignment to a key that is present replaces its value in place.
\<close>

type_synonym results = "(string \<times> pyval) list"

fun dict_set :: "results \<Rightarrow> string \<Rightarrow> pyval \<Rightarrow> results" where
  "dict_set [] k v = [(k, v)]"
| "dict_set ((k', v') # d) k v = (if k' = k then (k, v) # d else (k', v') # dict_set d k v)"

definition key_of :: "string \<Rightarrow> string \<Rightarrow> string" where
  "key_of channel param = channel @ ''_'' @ param"

text \<open>The keys in the order in which the nested loops visit them.\<close>

definition request_keys :: "string list \<Rightarrow> string list \<Rightarrow> string list" where
  "request_keys channels parameters =
     concat (map (\<lambda>param. map (\<lambda>channel. key_of channel param) channels) parameters)"

text \<open>\<^verbatim>\<open>float(values[idx])\<close>, and the raw string where that raises \<^verbatim>\<open>ValueError\<close>.\<close>

definition field_value :: "string \<Rightarrow> pyval" where
  "field_value s = (case py_float s of Some f \<Rightarrow> PyFloat f | None \<Rightarrow> PyStr s)"

text \<open>
  The body of the loops: a key is assigned while \<^verbatim>\<open>idx < len(values)\<close>, and only then
  does \<^verbatim>\<open>idx\<close> advance.
\<close>

fun decode_loop :: "string list \<Rightarrow> string list \<Rightarrow> nat \<Rightarrow> results \<Rightarrow> results" where
  "decode_loop [] values idx results = results"
| "decode_loop (k # ks) values idx results =
     (if idx < length values
      then decode_loop ks values (idx + 1) (dict_set results k (field_value (values ! idx)))
      else decode_loop ks values idx results)"

text \<open>What \<^verbatim>\<open>get_measurement\<close> returns for the reply of its query.\<close>

definition decode :: "string list \<Rightarrow> string list \<Rightarrow> string option \<Rightarrow> results option" where
  "decode channels parameters response =
     (case response of
        None \<Rightarrow> None
      | Some r \<Rightarrow>
          if r \<noteq> []
          then Some (decode_loop (request_keys channels parameters) (split_on (CHR '','') r) 0 [])
          else None)"

definition lan_get_measurement ::
  "string list \<Rightarrow> string list \<Rightarrow> lan_client \<Rightarrow> (error + results option) \<times> lan_client" where
  "lan_get_measurement channels parameters c =
     (case lan_query (build_command channels parameters) c of
        (Inl e, c') \<Rightarrow> (Inl e, c')
      | (Inr response, c') \<Rightarrow> (Inr (decode channels parameters response), c'))"

definition rs232_get_measurement ::
  "string list \<Rightarrow> string list \<Rightarrow> rs232_client \<Rightarrow> (error + results option) \<times> rs232_client" where
  "rs232_get_measurement channels parameters c =
     (case rs232_query (build_command channels parameters) c of
        (Inl e, c') \<Rightarrow> (Inl e, c')
      | (Inr response, c') \<Rightarrow> (Inr (decode channels parameters response), c'))"

definition usb_get_measurement ::
  "string list \<Rightarrow> string list \<Rightarrow> pyfloat list \<Rightarrow> usb_client \<Rightarrow>
   ((error + results option) \<times> pyfloat list \<times> usb_client) option" where
  "usb_get_measurement channels parameters clock c =
     (case usb_query (build_command channels parameters) clock c of
        None \<Rightarrow> None
      | Some (Inl e, clock', c') \<Rightarrow> Some (Inl e, clock', c')
      | Some (Inr response, clock', c') \<Rightarrow> Some (Inr (decode channels parameters response), clock', c'))"

section \<open>Streaming\<close>

text \<open>
  \<^verbatim>\<open>stream_data\<close> runs until the duration has elapsed, an exception leaves it, or the
  user interrupts it (\<^verbatim>\<open>KeyboardInterrupt\<close>, which it catches). The environment gives,
  for every iteration that runs before the interrupt, the values of the iteration's
  \<^verbatim>\<open>time.time()\<close> calls. The model is \<^verbatim>\<open>stream_data\<close> without a log file; the text it
  prints is not part of the result. The result records the queries issued and the
  sleep time of every completed iteration.
\<close>

datatype stop = DurationElapsed | Interrupted | Raised error

record stream_result =
  stopped :: stop
  sample_count :: nat
  issued :: "string list"
  sleeps :: "pyfloat list"

text \<open>\<^verbatim>\<open>duration > 0 and (now - start_time) > duration\<close>.\<close>

definition duration_over :: "pyfloat \<Rightarrow> pyfloat \<Rightarrow> pyfloat \<Rightarrow> bool" where
  "duration_over duration now start_time = (fgt duration fzero \<and> fgt (fsub now start_time) duration)"

text \<open>The query of an iteration: the full request until a sample has been counted.\<close>

definition next_query :: "string \<Rightarrow> nat \<Rightarrow> string" where
  "next_query command count = (if count = 0 then command else ''REREAD?'')"

text \<open>\<^verbatim>\<open>max(0, x)\<close> as a float: \<open>x\<close> where \<open>x > 0\<close>, and zero otherwise (also for NaN).\<close>

definition max0 :: "pyfloat \<Rightarrow> pyfloat" where
  "max0 x = (if fgt x fzero then x else fzero)"

subsection \<open>LAN\<close>

text \<open>
  An iteration has two clock values: \<^verbatim>\<open>sample_start\<close> and the time after the sample was
  processed. \<^verbatim>\<open>time.sleep\<close> is called with the positive sleep times only.
\<close>

definition positive_sleep_error :: "pyfloat \<Rightarrow> error option" where
  "positive_sleep_error sleep_time = (if fgt sleep_time fzero then sleep_error sleep_time else None)"

fun lan_stream_loop ::
  "string \<Rightarrow> pyfloat \<Rightarrow> pyfloat \<Rightarrow> pyfloat \<Rightarrow> (pyfloat \<times> pyfloat) list \<Rightarrow>
   stream_result \<Rightarrow> lan_client \<Rightarrow> stream_result \<times> lan_client" where
  "lan_stream_loop command duration sample_rate start_time [] st c =
     (st\<lparr>stopped := Interrupted\<rparr>, c)"
| "lan_stream_loop command duration sample_rate start_time ((sample_start, now) # clock) st c =
     (if duration_over duration sample_start start_time then (st\<lparr>stopped := DurationElapsed\<rparr>, c)
      else (case lan_query (next_query command (sample_count st)) c of
              (Inl e, c') \<Rightarrow>
                (st\<lparr>stopped := Raised e,
                    issued := issued st @ [next_query command (sample_count st)]\<rparr>, c')
            | (Inr response, c') \<Rightarrow>
                (case fdiv one sample_rate of
                   Inl e \<Rightarrow>
                     (st\<lparr>stopped := Raised e,
                         sample_count := (if truthy response then sample_count st + 1 else sample_count st),
                         issued := issued st @ [next_query command (sample_count st)]\<rparr>, c')
                 | Inr period \<Rightarrow>
                     (case positive_sleep_error (max0 (fsub period (fsub now sample_start))) of
                        Some e \<Rightarrow>
                          (st\<lparr>stopped := Raised e,
                              sample_count := (if truthy response then sample_count st + 1 else sample_count st),
                              issued := issued st @ [next_query command (sample_count st)]\<rparr>, c')
                      | None \<Rightarrow>
                          lan_stream_loop command duration sample_rate start_time clock
                            (st\<lparr>sample_count := (if truthy response then sample_count st + 1 else sample_count st),
                                issued := issued st @ [next_query command (sample_count st)],
                                sleeps := sleeps st @ [max0 (fsub period (fsub now sample_start))]\<rparr>)
                            c'))))"

definition no_samples :: stream_result where
  "no_samples = \<lparr>stopped = Interrupted, sample_count = 0, issued = [], sleeps = []\<rparr>"

definition lan_stream_data ::
  "string list \<Rightarrow> string list \<Rightarrow> pyfloat \<Rightarrow> pyfloat \<Rightarrow> pyfloat \<Rightarrow> (pyfloat \<times> pyfloat) list \<Rightarrow>
   lan_client \<Rightarrow> stream_result \<times> lan_client" where
  "lan_stream_data channels parameters duration sample_rate start_time clock c =
     lan_stream_loop (build_command channels parameters) duration sample_rate start_time clock
       no_samples c"

subsection \<open>RS232\<close>

text \<open>
  The request of the RS232 \<^verbatim>\<open>stream_data\<close> has another form than that of
  \<^verbatim>\<open>get_measurement\<close>. An iteration has two clock values as well: the one of the duration
  check (read only when \<^verbatim>\<open>duration > 0\<close>) and the one of the time stamp (read only when
  there is a response). The loop ends with \<^verbatim>\<open>time.sleep(1.0 / sample_rate)\<close>.
\<close>

definition rs232_stream_command :: "string list \<Rightarrow> string list \<Rightarrow> string" where
  "rs232_stream_command channels parameters =
     ''READ? '' @ join '','' (concat (map (\<lambda>param. map (\<lambda>channel. param @ '':'' @ channel) channels)
                                       parameters))"

fun rs232_stream_loop ::
  "string \<Rightarrow> pyfloat \<Rightarrow> pyfloat \<Rightarrow> pyfloat \<Rightarrow> (pyfloat \<times> pyfloat) list \<Rightarrow>
   stream_result \<Rightarrow> rs232_client \<Rightarrow> stream_result \<times> rs232_client" where
  "rs232_stream_loop command duration sample_rate start_time [] st c =
     (st\<lparr>stopped := Interrupted\<rparr>, c)"
| "rs232_stream_loop command duration sample_rate start_time ((check_time, stamp_time) # clock) st c =
     (if duration_over duration check_time start_time then (st\<lparr>stopped := DurationElapsed\<rparr>, c)
      else (case rs232_query (next_query command (sample_count st)) c of
              (Inl e, c') \<Rightarrow>
                (st\<lparr>stopped := Raised e,
                    issued := issued st @ [next_query command (sample_count st)]\<rparr>, c')
            | (Inr response, c') \<Rightarrow>
                (case fdiv one sample_rate of
                   Inl e \<Rightarrow>
                     (st\<lparr>stopped := Raised e,
                         sample_count := (if truthy response then sample_count st + 1 else sample_count st),
                         issued := issued st @ [next_query command (sample_count st)]\<rparr>, c')
                 | Inr period \<Rightarrow>
                     (case sleep_error period of
                        Some e \<Rightarrow>
                          (st\<lparr>stopped := Raised e,
                              sample_count := (if truthy response then sample_count st + 1 else sample_count st),
                              issued := issued st @ [next_query command (sample_count st)]\<rparr>, c')
                      | None \<Rightarrow>
                          rs232_stream_loop command duration sample_rate start_time clock
                            (st\<lparr>sample_count := (if truthy response then sample_count st + 1 else sample_count st),
                                issued := issued st @ [next_query command (sample_count st)],
                                sleeps := sleeps st @ [period]\<rparr>)
                            c'))))"

definition rs232_stream_data ::
  "string list \<Rightarrow> string list \<Rightarrow> pyfloat \<Rightarrow> pyfloat \<Rightarrow> pyfloat \<Rightarrow> (pyfloat \<times> pyfloat) list \<Rightarrow>
   rs232_client \<Rightarrow> stream_result \<times> rs232_client" where
  "rs232_stream_data channels parameters duration sample_rate start_time clock c =
     rs232_stream_loop (rs232_stream_command channels parameters) duration sample_rate start_time
       clock no_samples c"

text \<open>
  The sampling step of \<^verbatim>\<open>stream_worker\<close> in \<^verbatim>\<open>m2000_web_ui.py\<close>, on a LAN client: the
  first sample is taken by \<^verbatim>\<open>get_measurement\<close>; a later one by \<^verbatim>\<open>REREAD?\<close>, decoded by
  the same loops, and by \<^verbatim>\<open>get_measurement\<close> when the reply of \<^verbatim>\<open>REREAD?\<close> is falsy or
  the query raises (a bare \<^verbatim>\<open>except\<close>).
\<close>

definition worker_sample ::
  "string list \<Rightarrow> string list \<Rightarrow> nat \<Rightarrow> lan_client \<Rightarrow> (error + results option) \<times> lan_client" where
  "worker_sample channels parameters count c =
     (if count = 0 then lan_get_measurement channels parameters c
      else (case lan_query ''REREAD?'' c of
              (Inl e, c') \<Rightarrow> lan_get_measurement channels parameters c'
            | (Inr response, c') \<Rightarrow>
                if truthy response then (Inr (decode channels parameters response), c')
                else lan_get_measurement channels parameters c'))"

section \<open>Specification functions and scripted environments\<close>

text \<open>
  The keys of a dict in insertion order after the keys \<open>ks\<close> have been assigned in turn to
  a dict whose keys are \<open>seen\<close>: a key that is present keeps its place.
\<close>

fun add_keys :: "string list \<Rightarrow> string list \<Rightarrow> string list" where
  "add_keys seen [] = seen"
| "add_keys seen (k # ks) = add_keys (if k \<in> set seen then seen else seen @ [k]) ks"

definition insertion_order :: "string list \<Rightarrow> string list" where
  "insertion_order ks = add_keys [] ks"

text \<open>Assigning the decoded value of every pair of a key and a field, in turn.\<close>

fun assign_all :: "(string \<times> string) list \<Rightarrow> results \<Rightarrow> results" where
  "assign_all [] d = d"
| "assign_all ((k, v) # kvs) d = assign_all kvs (dict_set d k (field_value v))"

text \<open>The pairs of a channel and a parameter in the order of the nested loops.\<close>

definition request_pairs :: "string list \<Rightarrow> string list \<Rightarrow> (string \<times> string) list" where
  "request_pairs channels parameters =
     concat (map (\<lambda>param. map (\<lambda>channel. (channel, param)) channels) parameters)"

text \<open>
  Instruments for the examples: a socket on which the given lines arrive, each ended by
  a line feed; a serial port on which one line arrives, ended by carriage return and
  line feed; a HID device that never sends anything.
\<close>

definition reply_lines :: "string list \<Rightarrow> sock" where
  "reply_lines lines = \<lparr>incoming = concat (map (\<lambda>l. map RecvByte l @ [RecvByte LF]) lines),
                        send_results = [], sent = [], closed = False\<rparr>"

definition reply_port :: "string \<Rightarrow> serial_port" where
  "reply_port line = \<lparr>is_open = True, read_results = [ReadBytes (line @ [CR, LF])],
                      write_results = [], written = []\<rparr>"

definition silent_device :: hid_device where
  "silent_device = \<lparr>reads = [], writes = [], reports = [], dev_closed = False\<rparr>"

section \<open>Evaluation\<close>

text \<open>The equations that evaluate the functions above on literals.\<close>

lemmas string_defs =
  is_ascii_char_def is_ascii_def continuation_def utf8_valid_def ascii_lower_def
  lower_char_def lower_def unicode_spaces_def is_space_def strip_def ends_with_def
  drop_last2_def replace_semicolons_def

lemmas number_defs =
  is_digit_def digit_val_def nat_of_digits_def digit_char_def show_nat.simps zeros.simps
  zero_pad_def
  numeric_text_def c_space_def c_strip_def int_literal_def py_int_def ndigits.simps scale_le_def ilog_def div_half_even_def round_pos_def fzero_def
  round_q_def num_of_def den_of_def fge_def is_exp_char_def exponent_value_def too_long_def
  parse_decimal_def decimal_def signed_decimal_def float_literal_def py_float_def fixed_digits_def drop_trailing_zeros_def with_fraction_def fmt_exponent_def
  six_digits_def g_fixed_def g_scientific_def Let_def

lemmas units_defs =
  micro_def degree_def unit_map_def get_base_unit_def with_unit_def scale_decades_def
  scale_freq_def format_scaled_def format_measurement_def

lemmas float_defs =
  timed_out_def fgt_def flt_def float_of_int_def one_def max0_def duration_over_def
  signed_zero_def sleep_error_def positive_sleep_error_def

lemmas codec_defs =
  decode_def request_keys_def key_of_def field_value_def read_fields_def read_field_def
  m2000_param_def build_command_def

lemmas lan_defs =
  lan_query_def lan_send_command_def lan_read_response_def sock_sendall_def reply_lines_def
  lan_get_measurement_def lan_check_errors_def

lemmas stream_defs =
  lan_stream_data_def rs232_stream_data_def no_samples_def next_query_def
  rs232_stream_command_def rs232_query_def rs232_send_command_def rs232_read_response_def
  serial_write_def terminated_def reply_port_def

section \<open>Connecting and disconnecting\<close>

text \<open>
  \<^verbatim>\<open>send_command\<close> refuses to send while \<^verbatim>\<open>connected\<close> is false, in all three clients.
\<close>

lemma lan_send_command_unconnected:
  "\<not> connected c \<Longrightarrow> lan_send_command cmd c = (Inl NotConnected, c)"
  by (simp add: lan_send_command_def)

lemma rs232_send_command_unconnected:
  "\<not> connected c \<Longrightarrow> rs232_send_command cmd c = (Inl NotConnected, c)"
  by (simp add: rs232_send_command_def)

lemma usb_send_command_unconnected:
  "\<not> connected c \<Longrightarrow> usb_send_command cmd c = (Inl NotConnected, c)"
  by (simp add: usb_send_command_def)

text \<open>So the handshake stops at its first command, before anything is sent.\<close>

lemma handshake_not_connected:
  assumes "\<And>cmd. send_command cmd c = (Inl NotConnected, c)"
  shows "handshake send_command query set_connected c = (False, c)"
  using assms by (simp add: handshake_def)

lemma lan_connect_unconnected:
  "\<not> connected c \<Longrightarrow> fst (lan_connect r c) = False \<and> \<not> connected (snd (lan_connect r c))"
  by (cases r) (simp_all add: handshake_not_connected lan_send_command_unconnected)

lemma rs232_connect_unconnected:
  "\<not> connected c \<Longrightarrow> fst (rs232_connect r c) = False \<and> \<not> connected (snd (rs232_connect r c))"
  by (cases r) (simp_all add: handshake_not_connected rs232_send_command_unconnected)

lemma usb_connect_unconnected:
  "\<not> connected c \<Longrightarrow>
   \<exists>c'. usb_connect i env clock c = Some (False, clock, c') \<and> \<not> connected c'"
  by (simp add: usb_connect_def usb_send_command_unconnected Let_def split: option.split)

text \<open>
  C1. The claim: \<^verbatim>\<open>connect()\<close> sends \<^verbatim>\<open>*RST\<close> and \<^verbatim>\<open>*CLS\<close>, queries \<^verbatim>\<open>*IDN?\<close>, and for
  a reply that contains \<^verbatim>\<open>APS\<close> returns \<^verbatim>\<open>True\<close> with \<^verbatim>\<open>connected = True\<close>. The code
  does not: \<^verbatim>\<open>connect()\<close> calls \<^verbatim>\<open>send_command('*RST')\<close> while \<^verbatim>\<open>connected\<close> is still
  false, \<^verbatim>\<open>send_command\<close> raises \<^verbatim>\<open>Exception("Not connected to M2000")\<close>, and the
  handler of \<^verbatim>\<open>connect()\<close> returns \<^verbatim>\<open>False\<close>. On a new client of each of the three
  transports, with the transport opened and whatever the instrument would answer,
  \<^verbatim>\<open>connect()\<close> returns \<^verbatim>\<open>False\<close>, sends nothing (the socket, port or device is stored
  as it was opened) and leaves \<^verbatim>\<open>connected\<close> false; for every environment the result is
  \<^verbatim>\<open>False\<close>.
\<close>

theorem connect_always_fails:
  "lan_connect (Connected s) lan_init = (False, lan_init\<lparr>socket := Some s\<rparr>) \<and>
   fst (lan_connect r lan_init) = False \<and>
   rs232_connect (Opened p True) rs232_init = (False, rs232_init\<lparr>connection := Some p\<rparr>) \<and>
   fst (rs232_connect r' rs232_init) = False \<and>
   usb_connect 0 \<lparr>enumerated = Some 1, describe_ok = True, open_ok = True, new_device = d\<rparr>
       clock (usb_init ms)
     = Some (False, clock, (usb_init ms)\<lparr>device := Some d\<rparr>) \<and>
   map_option fst (usb_connect i env clock (usb_init ms)) = Some False"
proof -
  have 1: "\<not> connected lan_init" by (simp add: lan_init_def)
  have 2: "\<not> connected rs232_init" by (simp add: rs232_init_def)
  have 3: "\<not> connected (usb_init ms)" by (simp add: usb_init_def)
  have a: "lan_connect (Connected s) lan_init = (False, lan_init\<lparr>socket := Some s\<rparr>)"
    using 1 by (simp add: handshake_not_connected lan_send_command_unconnected)
  have b: "rs232_connect (Opened p True) rs232_init = (False, rs232_init\<lparr>connection := Some p\<rparr>)"
    using 2 by (simp add: handshake_not_connected rs232_send_command_unconnected)
  have c: "usb_connect 0 \<lparr>enumerated = Some 1, describe_ok = True, open_ok = True, new_device = d\<rparr>
       clock (usb_init ms)
     = Some (False, clock, (usb_init ms)\<lparr>device := Some d\<rparr>)"
    using 3 by (simp add: usb_connect_def usb_send_command_unconnected Let_def)
  have d: "map_option fst (usb_connect i env clock (usb_init ms)) = Some False"
    using usb_connect_unconnected [OF 3, of i env clock] by auto
  show ?thesis
    using a b c d lan_connect_unconnected [OF 1] rs232_connect_unconnected [OF 2] by simp
qed

text \<open>
  The LAN and USB versions of \<^verbatim>\<open>disconnect()\<close> let go of the transport in every state
  (they cannot raise: their model has no exception in its result).
\<close>

lemma lan_disconnect_releases:
  "socket (fst (lan_disconnect c)) = None"
  by (simp add: lan_disconnect_def split: option.split prod.split sum.split)

lemma usb_disconnect_releases:
  "device (fst (usb_disconnect c)) = None"
  by (simp add: usb_disconnect_def split: option.split prod.split sum.split)

lemma lan_disconnect_unready:
  "lan_disconnect \<lparr>connected = False, socket = Some s\<rparr>
     = (\<lparr>connected = False, socket = None\<rparr>, Some (s\<lparr>closed := True\<rparr>))"
  by (simp add: lan_disconnect_def)

lemma usb_disconnect_unready:
  "usb_disconnect \<lparr>connected = False, device = Some d, timeout = ms\<rparr>
     = (\<lparr>connected = False, device = None, timeout = ms\<rparr>, Some (d\<lparr>dev_closed := True\<rparr>))"
  by (simp add: usb_disconnect_def)

text \<open>The RS232 version has no handler around \<^verbatim>\<open>send_command('LOCAL')\<close>.\<close>

lemma rs232_disconnect_unready:
  "is_open p \<Longrightarrow>
   rs232_disconnect \<lparr>connected = False, connection = Some p\<rparr>
     = (Inl NotConnected, \<lparr>connected = False, connection = Some p\<rparr>)"
  by (simp add: rs232_disconnect_def rs232_send_command_def)

text \<open>
  C3. The claim: \<^verbatim>\<open>disconnect()\<close> does not raise and releases the transport in every
  state, also when the connection was opened and the identity check failed. For the
  RS232 client the code does not: after \<^verbatim>\<open>connect()\<close> has opened the port and has
  returned \<^verbatim>\<open>False\<close>, \<^verbatim>\<open>disconnect()\<close> raises \<^verbatim>\<open>Exception("Not connected to M2000")\<close> out of
  \<^verbatim>\<open>send_command('LOCAL')\<close>, and the port stays open.
\<close>

theorem rs232_disconnect_raises_after_failed_connect:
  "rs232_disconnect (snd (rs232_connect (Opened (p\<lparr>is_open := True\<rparr>) True) rs232_init))
     = (Inl NotConnected, \<lparr>connected = False, connection = Some (p\<lparr>is_open := True\<rparr>)\<rparr>)"
  by (simp add: rs232_init_def handshake_not_connected rs232_send_command_unconnected
      rs232_disconnect_unready)

section \<open>The error query\<close>

lemma py_int_00: "py_int ''00'' = Some 0"
  by (simp add: number_defs string_defs)

lemma py_int_7: "py_int ''7'' = Some 7"
  by (simp add: number_defs string_defs)

lemma py_int_err: "py_int ''E5'' = None"
  by (simp add: number_defs string_defs)

text \<open>
  \<^verbatim>\<open>int()\<close> skips the white space of C only: a reply with one of the separators
  \<open>0x1C..0x1F\<close> beside the number is no integer, although \<^verbatim>\<open>str.strip\<close> would remove
  the separator.
\<close>

lemma py_int_separator: "py_int [CHR 0x1F, CHR ''7''] = None"
  by (simp add: number_defs string_defs)

lemma py_int_spaces: "py_int '' 7 '' = Some 7"
  by (simp add: number_defs string_defs)

text \<open>On a string of at most 4300 ASCII digits \<^verbatim>\<open>int()\<close> is the number that the digits write.\<close>

lemma digit_is_ascii: "is_digit c \<Longrightarrow> is_ascii_char c"
  by (auto simp: is_digit_def is_ascii_char_def)

lemma digit_not_space: "is_digit c \<Longrightarrow> \<not> c_space c"
  by (auto simp: is_digit_def c_space_def)

lemma digits_numeric_text: "list_all is_digit ds \<Longrightarrow> numeric_text ds = Some ds"
  by (simp add: numeric_text_def is_ascii_def list_all_iff digit_is_ascii)

lemma digits_c_strip: "list_all is_digit ds \<Longrightarrow> c_strip ds = ds"
proof -
  assume d: "list_all is_digit ds"
  have 1: "dropWhile c_space ds = ds"
    using d by (cases ds) (simp_all add: digit_not_space)
  have "rev ds = [] \<or> \<not> c_space (hd (rev ds))"
    using d by (cases ds rule: rev_cases) (simp_all add: digit_not_space)
  then have 2: "dropWhile c_space (rev ds) = rev ds"
    by (simp add: dropWhile_eq_self_iff)
  show ?thesis by (simp add: c_strip_def 1 2)
qed

lemma digits_split_sign: "list_all is_digit ds \<Longrightarrow> split_sign ds = (False, ds)"
  by (cases ds) (auto simp: is_digit_def)

lemma digits_strip_underscores:
  "list_all is_digit ds \<Longrightarrow> prev \<noteq> CHR ''_'' \<Longrightarrow> strip_underscores prev ds = Some ds"
  by (induction ds arbitrary: prev) (auto simp: is_digit_def)

lemma py_int_digits:
  "ds \<noteq> [] \<Longrightarrow> list_all is_digit ds \<Longrightarrow> length ds \<le> 4300 \<Longrightarrow>
   py_int ds = Some (int (nat_of_digits ds))"
  by (simp add: py_int_def int_literal_def digits_numeric_text digits_c_strip digits_split_sign
      digits_strip_underscores)

lemma lan_check_errors_reply:
  "lan_query ''*ERR?'' c = (Inr reply, c') \<Longrightarrow> lan_check_errors c = (check_errors_result reply, c')"
  by (simp add: lan_check_errors_def)

lemma rs232_check_errors_reply:
  "rs232_query ''*ERR?'' c = (Inr reply, c') \<Longrightarrow> rs232_check_errors c = (check_errors_result reply, c')"
  by (simp add: rs232_check_errors_def)

lemma usb_check_errors_reply:
  "usb_query ''*ERR?'' clock c = Some (Inr reply, clock', c') \<Longrightarrow>
   usb_check_errors clock c = Some (check_errors_result reply, clock', c')"
  by (simp add: usb_check_errors_def)

text \<open>
  C10, as amended. \<^verbatim>\<open>check_errors\<close> returns 0 when the reply to \<^verbatim>\<open>*ERR?\<close> is \<^verbatim>\<open>None\<close>, the
  empty string or the string \<^verbatim>\<open>0\<close>. For every other reply it returns \<^verbatim>\<open>int(reply)\<close>, and
  raises \<^verbatim>\<open>ValueError\<close> when \<^verbatim>\<open>int\<close> rejects the reply. So the result is 0 exactly when
  the reply is one of the three or converts to 0 (as \<^verbatim>\<open>00\<close> does), and the exception is
  raised exactly for the non-empty replies that \<^verbatim>\<open>int\<close> rejects. A reply of at most 4300
  digits gives the number that the digits write; a reply with the separator \<open>0x1F\<close>
  before the digit raises \<^verbatim>\<open>ValueError\<close>. The method of each client returns that result
  for the reply of its query.
\<close>

theorem check_errors_result_cases:
  "(reply \<in> {None, Some [], Some ''0''} \<longrightarrow> check_errors_result reply = Inr 0) \<and>
   (reply = Some s \<and> s \<noteq> [] \<and> s \<noteq> ''0'' \<longrightarrow>
      check_errors_result reply = (case py_int s of None \<Rightarrow> Inl ValueError | Some n \<Rightarrow> Inr n)) \<and>
   (check_errors_result reply = Inr 0 \<longleftrightarrow>
      reply \<in> {None, Some [], Some ''0''} \<or> (\<exists>t. reply = Some t \<and> py_int t = Some 0)) \<and>
   (check_errors_result reply = Inl ValueError \<longleftrightarrow>
      (\<exists>t. reply = Some t \<and> t \<noteq> [] \<and> py_int t = None)) \<and>
   (ds \<noteq> [] \<and> list_all is_digit ds \<and> length ds \<le> 4300 \<longrightarrow>
      check_errors_result (Some ds) = Inr (int (nat_of_digits ds))) \<and>
   check_errors_result (Some [CHR 0x1F, CHR ''7'']) = Inl ValueError \<and>
   (lan_query ''*ERR?'' c = (Inr reply, c') \<longrightarrow> lan_check_errors c = (check_errors_result reply, c')) \<and>
   (rs232_query ''*ERR?'' p = (Inr reply, p') \<longrightarrow>
      rs232_check_errors p = (check_errors_result reply, p')) \<and>
   (usb_query ''*ERR?'' clock u = Some (Inr reply, clock', u') \<longrightarrow>
      usb_check_errors clock u = Some (check_errors_result reply, clock', u'))"
proof -
  have z: "py_int ''0'' = Some 0" by (simp add: number_defs string_defs)
  have e: "py_int [] = None" by (simp add: number_defs string_defs)
  have cases: "(reply \<in> {None, Some [], Some ''0''} \<longrightarrow> check_errors_result reply = Inr 0) \<and>
   (reply = Some s \<and> s \<noteq> [] \<and> s \<noteq> ''0'' \<longrightarrow>
      check_errors_result reply = (case py_int s of None \<Rightarrow> Inl ValueError | Some n \<Rightarrow> Inr n)) \<and>
   (check_errors_result reply = Inr 0 \<longleftrightarrow>
      reply \<in> {None, Some [], Some ''0''} \<or> (\<exists>t. reply = Some t \<and> py_int t = Some 0)) \<and>
   (check_errors_result reply = Inl ValueError \<longleftrightarrow>
      (\<exists>t. reply = Some t \<and> t \<noteq> [] \<and> py_int t = None))"
    using z e by (auto simp: check_errors_result_def split: option.splits)
  have digits: "check_errors_result (Some ds) = Inr (int (nat_of_digits ds))"
    if "ds \<noteq> []" "list_all is_digit ds" "length ds \<le> 4300"
    using py_int_digits [OF that] that(1) by (auto simp: check_errors_result_def nat_of_digits_def digit_val_def)
  have sep: "check_errors_result (Some [CHR 0x1F, CHR ''7'']) = Inl ValueError"
    by (simp add: check_errors_result_def py_int_separator)
  show ?thesis
    using cases digits sep lan_check_errors_reply [of c reply c']
      rs232_check_errors_reply [of p reply p'] usb_check_errors_reply [of clock u reply clock' u']
    by blast
qed

text \<open>The theorem at the replies \<^verbatim>\<open>7\<close>, \<^verbatim>\<open>None\<close> and \<^verbatim>\<open>E5\<close>.\<close>

theorem check_errors_result_cases_witness:
  "Some ''7'' = Some ''7'' \<and> ''7'' \<noteq> [] \<and> ''7'' \<noteq> ''0'' \<and> list_all is_digit ''7'' \<and>
   length ''7'' \<le> 4300 \<and> check_errors_result (Some ''7'') = Inr 7 \<and>
   check_errors_result None = Inr 0 \<and>
   check_errors_result (Some ''E5'') = Inl ValueError"
  using check_errors_result_cases [of "Some ''7''" "''7''" "''7''"] check_errors_result_cases [of None]
    check_errors_result_cases [of "Some ''E5''" "''E5''"] py_int_7 py_int_err
  by (simp add: is_digit_def)

text \<open>
  C10 as stated fails: the reply \<^verbatim>\<open>00\<close> is none of \<^verbatim>\<open>None\<close>, the empty string and
  \<^verbatim>\<open>0\<close>, and \<^verbatim>\<open>check_errors\<close> returns 0 for it.
\<close>

theorem check_errors_zero_counterexample:
  "fst (lan_check_errors \<lparr>connected = True, socket = Some (reply_lines [''00''])\<rparr>) = Inr 0 \<and>
   Some ''00'' \<notin> {None, Some [], Some ''0''} \<and>
   check_errors_result (Some ''00'') = Inr 0"
  by (simp add: lan_check_errors_def lan_query_def lan_send_command_def lan_read_response_def
      sock_sendall_def reply_lines_def check_errors_result_def py_int_00 string_defs)

section \<open>Decoding a measurement reply\<close>

lemma split_on_nonempty: "split_on d s \<noteq> []"
  by (induction s) (auto split: list.splits)

lemma length_request_keys:
  "length (request_keys channels parameters) = length parameters * length channels"
  by (induction parameters) (simp_all add: request_keys_def)

lemma length_read_fields:
  "length (read_fields channels parameters) = length parameters * length channels"
  by (induction parameters) (simp_all add: read_fields_def)

lemma set_request_keys:
  "set (request_keys channels parameters)
     = {key_of ch p | ch p. ch \<in> set channels \<and> p \<in> set parameters}"
  by (auto simp: request_keys_def)

lemma decode_loop_past_end:
  "length values \<le> idx \<Longrightarrow> decode_loop ks values idx d = d"
  by (induction ks) simp_all

lemma decode_loop_assign_all:
  "decode_loop ks values idx d = assign_all (zip ks (drop idx values)) d"
proof (induction ks arbitrary: idx d)
  case Nil
  then show ?case by simp
next
  case (Cons k ks)
  show ?case
  proof (cases "idx < length values")
    case True
    then have "drop idx values = values ! idx # drop (Suc idx) values"
      by (simp add: Cons_nth_drop_Suc)
    with True Cons show ?thesis by simp
  next
    case False
    then show ?thesis by (simp add: decode_loop_past_end)
  qed
qed

lemma keys_dict_set:
  "map fst (dict_set d k v) = (if k \<in> set (map fst d) then map fst d else map fst d @ [k])"
  by (induction d) force+

lemma map_of_dict_set: "map_of (dict_set d k v) = (map_of d)(k \<mapsto> v)"
  by (induction d) (auto simp: fun_eq_iff)

lemma length_dict_set:
  "length (dict_set d k v) = (if k \<in> set (map fst d) then length d else Suc (length d))"
  by (induction d) force+

lemma keys_assign_all: "map fst (assign_all kvs d) = add_keys (map fst d) (map fst kvs)"
proof (induction kvs arbitrary: d)
  case Nil
  then show ?case by simp
next
  case (Cons kv kvs)
  obtain k v where kv: "kv = (k, v)" by (cases kv)
  show ?case by (simp add: kv Cons keys_dict_set)
qed

lemma set_add_keys: "set (add_keys seen ks) = set seen \<union> set ks"
  by (induction ks arbitrary: seen) auto

lemma distinct_add_keys: "distinct seen \<Longrightarrow> distinct (add_keys seen ks)"
  by (induction ks arbitrary: seen) auto

lemma add_keys_distinct:
  "distinct (seen @ ks) \<Longrightarrow> add_keys seen ks = seen @ ks"
  by (induction ks arbitrary: seen) auto

lemma length_add_keys_le: "length (add_keys seen ks) \<le> length seen + length ks"
proof (induction ks arbitrary: seen)
  case Nil
  then show ?case by simp
next
  case (Cons k ks)
  show ?case using Cons [of "if k \<in> set seen then seen else seen @ [k]"] by auto
qed

lemma map_of_assign_all:
  "map_of (assign_all kvs d) = map_of d ++ map_of (rev (map (\<lambda>(k, v). (k, field_value v)) kvs))"
proof (induction kvs arbitrary: d)
  case Nil
  then show ?case by simp
next
  case (Cons kv kvs)
  obtain k v where kv: "kv = (k, v)" by (cases kv)
  show ?case
    by (simp add: kv Cons map_of_dict_set map_add_upd_left fun_eq_iff map_add_def
        split: option.splits)
qed

lemma assign_all_distinct:
  "distinct (map fst d @ map fst kvs) \<Longrightarrow>
   assign_all kvs d = d @ map (\<lambda>(k, v). (k, field_value v)) kvs"
proof (induction kvs arbitrary: d)
  case Nil
  then show ?case by simp
next
  case (Cons kv kvs)
  obtain k v where kv: "kv = (k, v)" by (cases kv)
  have notin: "k \<notin> set (map fst d)" using Cons.prems by (simp add: kv)
  have ds: "dict_set d k (field_value v) = d @ [(k, field_value v)]"
    using notin by (induction d) auto
  have "distinct (map fst (d @ [(k, field_value v)]) @ map fst kvs)"
    using Cons.prems by (auto simp: kv)
  from Cons.IH [OF this] show ?case by (simp add: kv ds)
qed

lemma read_fields_pairs:
  "read_fields channels parameters = map (\<lambda>(ch, p). read_field ch p) (request_pairs channels parameters)"
  by (simp add: read_fields_def request_pairs_def map_concat comp_def)

lemma request_keys_pairs:
  "request_keys channels parameters = map (\<lambda>(ch, p). key_of ch p) (request_pairs channels parameters)"
  by (simp add: request_keys_def request_pairs_def map_concat comp_def)

lemma key_of_channel:
  "CHR ''_'' \<notin> set ch \<Longrightarrow> takeWhile (\<lambda>c. c \<noteq> CHR ''_'') (key_of ch p) = ch"
  by (induction ch) (auto simp: key_of_def)

lemma key_of_inj:
  assumes "CHR ''_'' \<notin> set ch" "CHR ''_'' \<notin> set ch'" "key_of ch p = key_of ch' p'"
  shows "ch = ch' \<and> p = p'"
proof -
  have "ch = ch'"
    using key_of_channel [OF assms(1), of p] key_of_channel [OF assms(2), of p'] assms(3) by simp
  with assms(3) show ?thesis by (simp add: key_of_def)
qed

lemma distinct_request_keys:
  assumes "distinct channels" "distinct parameters" "list_all (\<lambda>ch. CHR ''_'' \<notin> set ch) channels"
  shows "distinct (request_keys channels parameters)"
  using assms(2)
proof (induction parameters)
  case Nil
  then show ?case by (simp add: request_keys_def)
next
  case (Cons p ps)
  have no: "\<And>ch. ch \<in> set channels \<Longrightarrow> CHR ''_'' \<notin> set ch"
    using assms(3) by (simp add: list_all_iff)
  have split: "request_keys channels (p # ps) = map (\<lambda>ch. key_of ch p) channels @ request_keys channels ps"
    by (simp add: request_keys_def)
  have d1: "distinct (map (\<lambda>ch. key_of ch p) channels)"
    using assms(1) no by (auto simp: distinct_map inj_on_def dest: key_of_inj)
  have d2: "distinct (request_keys channels ps)"
    using Cons by simp
  have disj: "set (map (\<lambda>ch. key_of ch p) channels) \<inter> set (request_keys channels ps) = {}"
  proof (rule ccontr)
    assume "set (map (\<lambda>ch. key_of ch p) channels) \<inter> set (request_keys channels ps) \<noteq> {}"
    then obtain ch ch' p' where "ch \<in> set channels" "ch' \<in> set channels" "p' \<in> set ps"
        "key_of ch p = key_of ch' p'"
      by (auto simp: set_request_keys)
    then have "p = p'" using key_of_inj no by blast
    with \<open>p' \<in> set ps\<close> Cons.prems show False by simp
  qed
  show ?case using d1 d2 disj by (simp add: split)
qed

lemma map_of_rev_last:
  "i < length kvs \<Longrightarrow> \<forall>j < length kvs. i < j \<longrightarrow> fst (kvs ! j) \<noteq> fst (kvs ! i) \<Longrightarrow>
   map_of (rev kvs) (fst (kvs ! i)) = Some (snd (kvs ! i))"
proof (induction kvs rule: rev_induct)
  case Nil
  then show ?case by simp
next
  case (snoc x xs)
  show ?case
  proof (cases "i = length xs")
    case True
    then show ?thesis by (cases x) simp
  next
    case False
    with snoc.prems have i: "i < length xs" by simp
    have ne: "fst x \<noteq> fst (xs ! i)"
      using snoc.prems(2) i by (auto simp: nth_append dest: spec [of _ "length xs"])
    have "\<forall>j < length xs. i < j \<longrightarrow> fst (xs ! j) \<noteq> fst (xs ! i)"
    proof (intro allI impI)
      fix j assume "j < length xs" "i < j"
      with snoc.prems(2) i show "fst (xs ! j) \<noteq> fst (xs ! i)"
        by (auto simp: nth_append dest!: spec [of _ j])
    qed
    from snoc.IH [OF i this] ne i show ?thesis
      by (cases x) (auto simp: nth_append)
  qed
qed

lemma decode_assign_all:
  "r \<noteq> [] \<Longrightarrow>
   decode channels parameters (Some r)
     = Some (assign_all (zip (request_keys channels parameters) (split_on (CHR '','') r)) [])"
  by (simp add: decode_def decode_loop_assign_all)

lemma decode_keys:
  assumes "r \<noteq> []"
  shows "\<exists>res. decode channels parameters (Some r) = Some res \<and>
           map fst res = insertion_order (take (length (split_on (CHR '','') r))
                                             (request_keys channels parameters))"
  using assms
  by (simp add: decode_assign_all keys_assign_all insertion_order_def map_fst_zip_take min_def)

lemma decode_value_at:
  assumes "r \<noteq> []"
    and i: "i < length (request_keys channels parameters)" "i < length (split_on (CHR '','') r)"
    and last: "\<forall>j < length (request_keys channels parameters). j < length (split_on (CHR '','') r) \<longrightarrow> i < j \<longrightarrow>
               request_keys channels parameters ! j \<noteq> request_keys channels parameters ! i"
  shows "\<exists>res. decode channels parameters (Some r) = Some res \<and>
           map_of res (request_keys channels parameters ! i)
             = Some (field_value (split_on (CHR '','') r ! i))"
proof -
  let ?keys = "request_keys channels parameters"
  let ?vs = "split_on (CHR '','') r"
  let ?kvs = "map (\<lambda>(k, v). (k, field_value v)) (zip ?keys ?vs)"
  have len: "i < length ?kvs" using i by simp
  have nth: "\<And>j. j < length ?kvs \<Longrightarrow> ?kvs ! j = (?keys ! j, field_value (?vs ! j))"
    by simp
  have "\<forall>j < length ?kvs. i < j \<longrightarrow> fst (?kvs ! j) \<noteq> fst (?kvs ! i)"
    using last i by (simp add: nth)
  from map_of_rev_last [OF len this]
  have "map_of (rev ?kvs) (?keys ! i) = Some (field_value (?vs ! i))"
    using len by (simp add: nth)
  then show ?thesis
    using assms(1) by (simp add: decode_assign_all map_of_assign_all)
qed

lemma decode_distinct:
  assumes "r \<noteq> []" "distinct (request_keys channels parameters)"
  shows "decode channels parameters (Some r)
           = Some (zip (request_keys channels parameters) (map field_value (split_on (CHR '','') r)))"
proof -
  let ?keys = "request_keys channels parameters"
  let ?vs = "split_on (CHR '','') r"
  have "distinct (map fst (zip ?keys ?vs))"
    using assms(2) by (simp add: map_fst_zip_take distinct_take)
  then have "assign_all (zip ?keys ?vs) [] = map (\<lambda>(k, v). (k, field_value v)) (zip ?keys ?vs)"
    using assign_all_distinct [of "[]" "zip ?keys ?vs"] by simp
  also have "\<dots> = zip ?keys (map field_value ?vs)"
    by (simp add: zip_map2 case_prod_beta' prod.case_eq_if)
  finally show ?thesis using assms(1) by (simp add: decode_assign_all)
qed

lemma decode_example:
  "decode [''CH1''] [''V'', ''A'', ''W''] (Some ''230.45,1.234,284.5'')
     = Some [(''CH1_V'', PyFloat (decimal 23045 (- 2))),
             (''CH1_A'', PyFloat (decimal 1234 (- 3))),
             (''CH1_W'', PyFloat (decimal 2845 (- 1)))]"
  by (simp add: decode_def request_keys_def key_of_def field_value_def number_defs string_defs)

lemma decode_empty_response:
  "decode channels parameters (Some []) = None"
  by (simp add: decode_def)

lemma decode_length_le:
  "decode channels parameters response = Some res \<Longrightarrow>
   length res \<le> length parameters * length channels \<and>
   length res \<le> length (split_on (CHR '','') (the response))"
proof -
  assume a: "decode channels parameters response = Some res"
  then obtain r where r: "response = Some r" "r \<noteq> []"
    by (auto simp: decode_def split: option.splits if_splits)
  let ?keys = "request_keys channels parameters"
  let ?vs = "split_on (CHR '','') r"
  have res: "res = assign_all (zip ?keys ?vs) []"
    using a r by (simp add: decode_assign_all)
  have "length res = length (map fst res)" by simp
  also have "\<dots> = length (add_keys [] (map fst (zip ?keys ?vs)))"
    by (simp add: res keys_assign_all)
  also have "\<dots> \<le> length (zip ?keys ?vs)"
    using length_add_keys_le [of "[]" "map fst (zip ?keys ?vs)"] by simp
  finally show ?thesis
    using r by (simp add: length_request_keys)
qed

lemma field_value_cases:
  "(py_float s = None \<longrightarrow> field_value s = PyStr s) \<and>
   (py_float s = Some f \<longrightarrow> field_value s = PyFloat f)"
  by (simp add: field_value_def)

text \<open>
  \<^verbatim>\<open>float()\<close> skips the white space of C only: a field with one of the separators
  \<open>0x1C..0x1F\<close> beside the number is kept as the raw string.
\<close>

lemma field_value_separator:
  "field_value (''2.5'' @ [CHR 0x1F]) = PyStr (''2.5'' @ [CHR 0x1F])"
  by (simp add: field_value_def number_defs string_defs)

lemma decode_separators:
  "decode [''CH1'', ''CH2''] [''V''] (Some (CHR 0x1C # ''1.5,2.5'' @ [CHR 0x1F]))
     = Some [(''CH1_V'', PyStr (CHR 0x1C # ''1.5'')), (''CH2_V'', PyStr (''2.5'' @ [CHR 0x1F]))]"
  by (simp add: codec_defs number_defs string_defs)

lemma lan_get_measurement_decode:
  "lan_query (build_command channels parameters) c = (Inr response, c') \<Longrightarrow>
   lan_get_measurement channels parameters c = (Inr (decode channels parameters response), c')"
  by (simp add: lan_get_measurement_def)

text \<open>
  C2, as amended. For every non-empty response with at least
  \<open>|parameters| * |channels|\<close> comma-separated fields, the decoding of
  \<^verbatim>\<open>get_measurement\<close> returns a map whose key set is \<^verbatim>\<open>{channel}_{parameter}\<close> for every
  combination, inserted in the order of the request (parameters outside, channels
  inside; a key that occurs again keeps its first place). The value of a key is the
  float of the field at its position, or the raw string where \<^verbatim>\<open>float\<close> fails; when a
  key occurs at several positions, it is the field of the last of them. When the keys
  are pairwise distinct the map is the list of the keys paired with the decoded fields.
  The response \<^verbatim>\<open>230.45,1.234,284.5\<close> for the parameters V, A, W and the channel CH1
  decodes to \<^verbatim>\<open>{CH1_V: 230.45, CH1_A: 1.234, CH1_W: 284.5}\<close>. In a response that begins
  with the separator \<open>0x1C\<close> and ends with the separator \<open>0x1F\<close> the first and the last
  field stay strings.
\<close>

theorem decode_complete_response:
  "(r \<noteq> [] \<and> length parameters * length channels \<le> length (split_on (CHR '','') r) \<longrightarrow>
      (\<exists>res. decode channels parameters (Some r) = Some res \<and>
         set (map fst res) = {key_of ch p | ch p. ch \<in> set channels \<and> p \<in> set parameters} \<and>
         map fst res = insertion_order (request_keys channels parameters) \<and>
         (\<forall>i < length (request_keys channels parameters).
            (\<forall>j < length (request_keys channels parameters).
               i < j \<longrightarrow> request_keys channels parameters ! j \<noteq> request_keys channels parameters ! i) \<longrightarrow>
            map_of res (request_keys channels parameters ! i)
              = Some (field_value (split_on (CHR '','') r ! i))) \<and>
         (distinct (request_keys channels parameters) \<longrightarrow>
            res = zip (request_keys channels parameters) (map field_value (split_on (CHR '','') r))))) \<and>
   (py_float s = None \<longrightarrow> field_value s = PyStr s) \<and>
   (py_float s = Some f \<longrightarrow> field_value s = PyFloat f) \<and>
   decode [''CH1''] [''V'', ''A'', ''W''] (Some ''230.45,1.234,284.5'')
     = Some [(''CH1_V'', PyFloat (decimal 23045 (- 2))),
             (''CH1_A'', PyFloat (decimal 1234 (- 3))),
             (''CH1_W'', PyFloat (decimal 2845 (- 1)))] \<and>
   decode [''CH1'', ''CH2''] [''V''] (Some (CHR 0x1C # ''1.5,2.5'' @ [CHR 0x1F]))
     = Some [(''CH1_V'', PyStr (CHR 0x1C # ''1.5'')), (''CH2_V'', PyStr (''2.5'' @ [CHR 0x1F]))]"
proof -
  let ?keys = "request_keys channels parameters"
  let ?vs = "split_on (CHR '','') r"
  have general: "\<exists>res. decode channels parameters (Some r) = Some res \<and>
         set (map fst res) = {key_of ch p | ch p. ch \<in> set channels \<and> p \<in> set parameters} \<and>
         map fst res = insertion_order ?keys \<and>
         (\<forall>i < length ?keys.
            (\<forall>j < length ?keys. i < j \<longrightarrow> ?keys ! j \<noteq> ?keys ! i) \<longrightarrow>
            map_of res (?keys ! i) = Some (field_value (?vs ! i))) \<and>
         (distinct ?keys \<longrightarrow> res = zip ?keys (map field_value ?vs))"
    if r: "r \<noteq> []" and n: "length parameters * length channels \<le> length ?vs"
  proof -
    let ?res = "assign_all (zip ?keys ?vs) []"
    have dec: "decode channels parameters (Some r) = Some ?res"
      using r by (rule decode_assign_all)
    have len: "length ?keys \<le> length ?vs"
      using n by (simp add: length_request_keys)
    have keys: "map fst ?res = insertion_order ?keys"
      using decode_keys [OF r, of channels parameters] len by (simp add: dec)
    have set: "set (map fst ?res) = {key_of ch p | ch p. ch \<in> set channels \<and> p \<in> set parameters}"
      by (simp only: keys insertion_order_def set_add_keys set_request_keys) simp
    have vals: "map_of ?res (?keys ! i) = Some (field_value (?vs ! i))"
      if "i < length ?keys" "\<forall>j < length ?keys. i < j \<longrightarrow> ?keys ! j \<noteq> ?keys ! i" for i
      using decode_value_at [OF r that(1), of ] that len by (simp add: dec)
    have dist: "?res = zip ?keys (map field_value ?vs)" if "distinct ?keys"
      using decode_distinct [OF r that] by (simp add: dec)
    show ?thesis
      using dec keys set vals dist by blast
  qed
  show ?thesis
    using general field_value_cases [of s f] decode_example decode_separators by blast
qed

lemma decode_witness_value:
  "decode [''CH1'', ''CH2''] [''V''] (Some ''1.5,OVER'')
     = Some [(''CH1_V'', PyFloat (decimal 15 (- 1))), (''CH2_V'', PyStr ''OVER'')]"
  by (simp add: codec_defs number_defs string_defs)

text \<open>The theorem at the channels CH1, CH2, the parameter V and the response \<^verbatim>\<open>1.5,OVER\<close>.\<close>

theorem decode_complete_response_witness:
  "''1.5,OVER'' \<noteq> [] \<and>
   length [''V''] * length [''CH1'', ''CH2''] \<le> length (split_on (CHR '','') ''1.5,OVER'') \<and>
   distinct (request_keys [''CH1'', ''CH2''] [''V'']) \<and>
   decode [''CH1'', ''CH2''] [''V''] (Some ''1.5,OVER'')
     = Some (zip (request_keys [''CH1'', ''CH2''] [''V''])
               (map field_value (split_on (CHR '','') ''1.5,OVER''))) \<and>
   decode [''CH1'', ''CH2''] [''V''] (Some ''1.5,OVER'')
     = Some [(''CH1_V'', PyFloat (decimal 15 (- 1))), (''CH2_V'', PyStr ''OVER'')]"
proof -
  have h1: "''1.5,OVER'' \<noteq> []" by simp
  have h2: "length [''V''] * length [''CH1'', ''CH2''] \<le> length (split_on (CHR '','') ''1.5,OVER'')"
    by simp
  have h3: "distinct (request_keys [''CH1'', ''CH2''] [''V''])"
    by (simp add: request_keys_def key_of_def)
  from decode_complete_response [where r = "''1.5,OVER''" and parameters = "[''V'']"
      and channels = "[''CH1'', ''CH2'']"] h1 h2 h3
  have "decode [''CH1'', ''CH2''] [''V''] (Some ''1.5,OVER'')
     = Some (zip (request_keys [''CH1'', ''CH2''] [''V''])
               (map field_value (split_on (CHR '','') ''1.5,OVER'')))"
    by blast
  with h1 h2 h3 decode_witness_value show ?thesis by simp
qed

text \<open>
  C2 as stated fails at the empty response: it has one field (\<^verbatim>\<open>"".split(',')\<close> is
  \<^verbatim>\<open>['']\<close>), which is enough for one channel and one parameter, and
  \<^verbatim>\<open>get_measurement\<close> returns \<^verbatim>\<open>None\<close> for it, on the guard \<^verbatim>\<open>if response:\<close>. The LAN client
  reads the empty response from an instrument that sends an empty line.
\<close>

theorem decode_empty_response_counterexample:
  "[''CH1''] \<noteq> [] \<and> [''V''] \<noteq> [] \<and>
   length [''V''] * length [''CH1''] \<le> length (split_on (CHR '','') []) \<and>
   decode [''CH1''] [''V''] (Some []) = None \<and>
   fst (lan_get_measurement [''CH1''] [''V''] \<lparr>connected = True, socket = Some (reply_lines [[]])\<rparr>)
     = Inr None"
  by (simp add: lan_defs codec_defs string_defs)

text \<open>
  C4, as amended. Decoding a non-empty response never fails. When the response has
  fewer fields than requested, the result is a partial map: its keys are those of the
  first \<^verbatim>\<open>len(values)\<close> positions of the request, in insertion order, and it has at most
  \<^verbatim>\<open>len(values)\<close> entries; with pairwise distinct keys it is the list of the first keys
  paired with the decoded fields. A field that \<^verbatim>\<open>float\<close> rejects is stored as the raw
  string, as is the field \<^verbatim>\<open>2.5\<close> followed by the separator \<open>0x1F\<close>.
\<close>

theorem decode_short_response:
  "(r \<noteq> [] \<longrightarrow>
      (\<exists>res. decode channels parameters (Some r) = Some res \<and>
         map fst res = insertion_order (take (length (split_on (CHR '','') r))
                                           (request_keys channels parameters)) \<and>
         length res \<le> length (split_on (CHR '','') r) \<and>
         (distinct (request_keys channels parameters) \<longrightarrow>
            res = zip (request_keys channels parameters) (map field_value (split_on (CHR '','') r)) \<and>
            length res = min (length parameters * length channels) (length (split_on (CHR '','') r))))) \<and>
   (py_float s = None \<longrightarrow> field_value s = PyStr s) \<and>
   field_value (''2.5'' @ [CHR 0x1F]) = PyStr (''2.5'' @ [CHR 0x1F])"
proof -
  let ?keys = "request_keys channels parameters"
  let ?vs = "split_on (CHR '','') r"
  have general: "\<exists>res. decode channels parameters (Some r) = Some res \<and>
         map fst res = insertion_order (take (length ?vs) ?keys) \<and>
         length res \<le> length ?vs \<and>
         (distinct ?keys \<longrightarrow>
            res = zip ?keys (map field_value ?vs) \<and>
            length res = min (length parameters * length channels) (length ?vs))"
    if r: "r \<noteq> []"
  proof -
    from decode_keys [OF r, of channels parameters]
    obtain res where res: "decode channels parameters (Some r) = Some res"
      "map fst res = insertion_order (take (length ?vs) ?keys)"
      by blast
    have le: "length res \<le> length ?vs"
      using decode_length_le [OF res(1)] by simp
    have dist: "res = zip ?keys (map field_value ?vs) \<and>
                length res = min (length parameters * length channels) (length ?vs)"
      if "distinct ?keys"
      using decode_distinct [OF r that] res(1) by (auto simp: length_request_keys)
    show ?thesis using res le dist by blast
  qed
  show ?thesis
    using general field_value_cases [of s] field_value_separator by blast
qed

lemma decode_short_value:
  "decode [''CH1''] [''V'', ''A''] (Some ''1.0'') = Some [(''CH1_V'', PyFloat (decimal 10 (- 1)))]"
  by (simp add: codec_defs number_defs string_defs)

lemma py_float_over: "py_float ''OVER'' = None"
  by (simp add: number_defs string_defs)

text \<open>
  The theorem at the channel CH1, the parameters V, A and the response \<^verbatim>\<open>1.0\<close>, and at
  the field \<^verbatim>\<open>OVER\<close>.
\<close>

theorem decode_short_response_witness:
  "''1.0'' \<noteq> [] \<and> distinct (request_keys [''CH1''] [''V'', ''A'']) \<and>
   decode [''CH1''] [''V'', ''A''] (Some ''1.0'')
     = Some (zip (request_keys [''CH1''] [''V'', ''A'']) (map field_value (split_on (CHR '','') ''1.0''))) \<and>
   decode [''CH1''] [''V'', ''A''] (Some ''1.0'') = Some [(''CH1_V'', PyFloat (decimal 10 (- 1)))] \<and>
   py_float ''OVER'' = None \<and> field_value ''OVER'' = PyStr ''OVER''"
proof -
  have h1: "''1.0'' \<noteq> []" by simp
  have h2: "distinct (request_keys [''CH1''] [''V'', ''A''])"
    by (simp add: request_keys_def key_of_def)
  from decode_short_response [where r = "''1.0''" and parameters = "[''V'', ''A'']"
      and channels = "[''CH1'']" and s = "''OVER''"] h1 h2 py_float_over
  have "decode [''CH1''] [''V'', ''A''] (Some ''1.0'')
     = Some (zip (request_keys [''CH1''] [''V'', ''A'']) (map field_value (split_on (CHR '','') ''1.0'')))"
    and "field_value ''OVER'' = PyStr ''OVER''"
    by auto
  with h1 h2 decode_short_value py_float_over show ?thesis by simp
qed

text \<open>
  C4 as stated fails: the response \<^verbatim>\<open>1.0\<close> has one field where two are requested, and
  the decoding returns the partial map \<^verbatim>\<open>{CH1_V: 1.0}\<close>.
\<close>

theorem decode_short_response_counterexample:
  "length (split_on (CHR '','') ''1.0'') < length [''V'', ''A''] * length [''CH1''] \<and>
   decode [''CH1''] [''V'', ''A''] (Some ''1.0'') = Some [(''CH1_V'', PyFloat (decimal 10 (- 1)))]"
  using decode_short_value by simp

text \<open>
  C8, as amended. The request has \<open>|parameters| * |channels|\<close> fields, and its fields and
  the keys of the sample are built from the same pairs in the same order. When the keys
  \<^verbatim>\<open>{channel}_{parameter}\<close> are pairwise distinct and the response is non-empty with at
  least that many fields, the sample has exactly that many entries, in the order of the
  request. A sample never has more entries than the request has fields. The keys are
  pairwise distinct when neither list has a repeated entry and no channel name contains
  an underscore.
\<close>

theorem sample_field_count:
  "length (read_fields channels parameters) = length parameters * length channels \<and>
   read_fields channels parameters
     = map (\<lambda>(ch, p). read_field ch p) (request_pairs channels parameters) \<and>
   request_keys channels parameters
     = map (\<lambda>(ch, p). key_of ch p) (request_pairs channels parameters) \<and>
   (r \<noteq> [] \<and> length parameters * length channels \<le> length (split_on (CHR '','') r) \<and>
    distinct (request_keys channels parameters) \<longrightarrow>
      (\<exists>res. decode channels parameters (Some r) = Some res \<and>
         length res = length parameters * length channels \<and>
         map fst res = request_keys channels parameters)) \<and>
   (decode channels parameters response = Some res' \<longrightarrow>
      length res' \<le> length parameters * length channels) \<and>
   (distinct channels \<and> distinct parameters \<and> list_all (\<lambda>ch. CHR ''_'' \<notin> set ch) channels \<longrightarrow>
      distinct (request_keys channels parameters))"
proof -
  let ?keys = "request_keys channels parameters"
  let ?vs = "split_on (CHR '','') r"
  have full: "\<exists>res. decode channels parameters (Some r) = Some res \<and>
         length res = length parameters * length channels \<and> map fst res = ?keys"
    if "r \<noteq> []" "length parameters * length channels \<le> length ?vs" "distinct ?keys"
  proof -
    have "decode channels parameters (Some r) = Some (zip ?keys (map field_value ?vs))"
      using decode_distinct that by blast
    moreover have "length (zip ?keys (map field_value ?vs)) = length parameters * length channels"
      using that(2) by (simp add: length_request_keys)
    moreover have "map fst (zip ?keys (map field_value ?vs)) = ?keys"
      using that(2) by (simp add: map_fst_zip_take length_request_keys)
    ultimately show ?thesis by blast
  qed
  have le: "length res' \<le> length parameters * length channels"
    if "decode channels parameters response = Some res'"
    using decode_length_le [OF that] by simp
  show ?thesis
    using length_read_fields [of channels parameters] read_fields_pairs [of channels parameters]
      request_keys_pairs [of channels parameters] full le
      distinct_request_keys [of channels parameters]
    by blast
qed

lemma decode_four_values:
  "decode [''CH1'', ''CH2''] [''V'', ''A''] (Some ''1,2,3,4'')
     = Some [(''CH1_V'', PyFloat (decimal 1 0)), (''CH2_V'', PyFloat (decimal 2 0)),
             (''CH1_A'', PyFloat (decimal 3 0)), (''CH2_A'', PyFloat (decimal 4 0))]"
  by (simp add: codec_defs number_defs string_defs)

text \<open>
  The theorem at the channels CH1, CH2, the parameters V, A and the response
  \<^verbatim>\<open>1,2,3,4\<close>.
\<close>

theorem sample_field_count_witness:
  "''1,2,3,4'' \<noteq> [] \<and>
   length [''V'', ''A''] * length [''CH1'', ''CH2''] \<le> length (split_on (CHR '','') ''1,2,3,4'') \<and>
   distinct [''CH1'', ''CH2''] \<and> distinct [''V'', ''A''] \<and>
   list_all (\<lambda>ch. CHR ''_'' \<notin> set ch) [''CH1'', ''CH2''] \<and>
   distinct (request_keys [''CH1'', ''CH2''] [''V'', ''A'']) \<and>
   (\<exists>res. decode [''CH1'', ''CH2''] [''V'', ''A''] (Some ''1,2,3,4'') = Some res \<and>
      length res = length [''V'', ''A''] * length [''CH1'', ''CH2''] \<and>
      map fst res = request_keys [''CH1'', ''CH2''] [''V'', ''A'']) \<and>
   decode [''CH1'', ''CH2''] [''V'', ''A''] (Some ''1,2,3,4'')
     = Some [(''CH1_V'', PyFloat (decimal 1 0)), (''CH2_V'', PyFloat (decimal 2 0)),
             (''CH1_A'', PyFloat (decimal 3 0)), (''CH2_A'', PyFloat (decimal 4 0))]"
proof -
  have h1: "''1,2,3,4'' \<noteq> []" by simp
  have h2: "length [''V'', ''A''] * length [''CH1'', ''CH2''] \<le> length (split_on (CHR '','') ''1,2,3,4'')"
    by simp
  have h3: "distinct [''CH1'', ''CH2''] \<and> distinct [''V'', ''A''] \<and>
            list_all (\<lambda>ch. CHR ''_'' \<notin> set ch) [''CH1'', ''CH2'']"
    by simp
  note t = sample_field_count [where channels = "[''CH1'', ''CH2'']" and parameters = "[''V'', ''A'']"
      and r = "''1,2,3,4''"]
  from t h3 have h4: "distinct (request_keys [''CH1'', ''CH2''] [''V'', ''A''])"
    by blast
  from t h1 h2 h4
  have h5: "\<exists>res. decode [''CH1'', ''CH2''] [''V'', ''A''] (Some ''1,2,3,4'') = Some res \<and>
      length res = length [''V'', ''A''] * length [''CH1'', ''CH2''] \<and>
      map fst res = request_keys [''CH1'', ''CH2''] [''V'', ''A'']"
    by blast
  show ?thesis
    using h1 h2 h3 h4 h5 decode_four_values by blast
qed

text \<open>
  C8 as stated fails for a repeated entry: for the channels CH1, CH1 and the parameter V
  the request has two fields, and the sample decoded from \<^verbatim>\<open>1,2\<close> has the one entry
  \<^verbatim>\<open>CH1_V\<close>, with the value of the second field. It fails for a short response as
  well: for the channel CH1 and the parameters V, A the request has two fields, and the
  sample decoded from \<^verbatim>\<open>1.0\<close> has one entry.
\<close>

theorem decode_repeated_entries_counterexample:
  "length (read_fields [''CH1'', ''CH1''] [''V'']) = 2 \<and>
   decode [''CH1'', ''CH1''] [''V''] (Some ''1,2'') = Some [(''CH1_V'', PyFloat (decimal 2 0))] \<and>
   length (read_fields [''CH1''] [''V'', ''A'']) = 2 \<and>
   decode [''CH1''] [''V'', ''A''] (Some ''1.0'') = Some [(''CH1_V'', PyFloat (decimal 10 (- 1)))]"
  using decode_short_value by (simp add: codec_defs number_defs string_defs)

section \<open>Read timeouts\<close>

lemma usb_read_response_no_timeout_error:
  "usb_read_response clock c \<noteq> Some (Inl ReadTimeout, clock', c')"
  by (auto simp: usb_read_response_def split: option.splits list.splits prod.splits)

lemma read_loop_timeout:
  "timed_out now start_time ms \<Longrightarrow>
   read_loop start_time ms response (now # clock) rs = (Some None, clock, rs)"
  by simp

text \<open>
  C9. The claim: a read that exceeds its timeout fails with a timeout error and does not
  return a normal value such as \<^verbatim>\<open>None\<close>. The USB client does not: with a timeout of 5000
  ms, a device that sends nothing and a clock that reads 0 s at the start, 1 s at the
  first check and 6 s at the second, \<^verbatim>\<open>read_response\<close> returns \<^verbatim>\<open>None\<close>; and in no
  environment does it raise the timeout error.
\<close>

theorem usb_read_timeout_returns_none:
  "usb_read_response [decimal 0 0, decimal 1 0, decimal 6 0]
     \<lparr>connected = True, device = Some silent_device, timeout = 5000\<rparr>
     = Some (Inr None, [], \<lparr>connected = True, device = Some silent_device, timeout = 5000\<rparr>) \<and>
   usb_read_response clock c \<noteq> Some (Inl ReadTimeout, clock', c')"
proof -
  have 1: "\<not> timed_out (decimal 1 0) (decimal 0 0) 5000"
    by (simp add: float_defs number_defs)
  have 2: "timed_out (decimal 6 0) (decimal 0 0) 5000"
    by (simp add: float_defs number_defs)
  have "usb_read_response [decimal 0 0, decimal 1 0, decimal 6 0]
     \<lparr>connected = True, device = Some silent_device, timeout = 5000\<rparr>
     = Some (Inr None, [], \<lparr>connected = True, device = Some silent_device, timeout = 5000\<rparr>)"
    using 1 2 by (simp add: usb_read_response_def silent_device_def)
  then show ?thesis
    using usb_read_response_no_timeout_error by blast
qed

lemma lan_read_timeout_raises:
  "fst (lan_read_response \<lparr>connected = True, socket = Some (s\<lparr>incoming := []\<rparr>)\<rparr>) = Inl ReadTimeout"
  by (simp add: lan_read_response_def)

lemma rs232_read_timeout_returns:
  "fst (rs232_read_response
          \<lparr>connected = True,
           connection = Some \<lparr>is_open = True, read_results = [ReadBytes ''230.''],
                              write_results = [], written = []\<rparr>\<rparr>) = Inr (Some ''23'')"
  by (simp add: rs232_read_response_def string_defs)

section \<open>The streaming loop\<close>

lemma one_over_five: "fdiv one (decimal 5 0) = Inr (decimal 2 (- 1))"
  by (simp add: float_defs number_defs)

lemma one_over_one: "fdiv one one = Inr one"
  by (simp add: float_defs number_defs)

lemma one_value: "one = Finite 4503599627370496 (- 52)"
  by (simp add: float_defs number_defs)

text \<open>
  Once a sample has been counted, every further query of the LAN loop is \<^verbatim>\<open>REREAD?\<close>,
  whatever the instrument answers: the full request is never issued again.
\<close>

lemma lan_stream_loop_rereads:
  "0 < sample_count st \<Longrightarrow>
   \<exists>k. issued (fst (lan_stream_loop command duration sample_rate start_time clock st c))
         = issued st @ replicate k ''REREAD?''"
proof (induction clock arbitrary: st c)
  case Nil
  then show ?case by (auto intro: exI [of _ 0])
next
  case (Cons it clock)
  obtain sample_start now where it: "it = (sample_start, now)" by (cases it)
  let ?q = "next_query command (sample_count st)"
  have q: "?q = ''REREAD?''" using Cons.prems by (simp add: next_query_def)
  show ?case
  proof (cases "duration_over duration sample_start start_time")
    case True
    then show ?thesis by (auto simp: it intro: exI [of _ 0])
  next
    case False
    obtain r c' where lq: "lan_query ?q c = (r, c')" by (cases "lan_query ?q c")
    show ?thesis
    proof (cases r)
      case (Inl e)
      then show ?thesis
        using False lq q by (auto simp: it intro: exI [of _ 1])
    next
      case (Inr response)
      show ?thesis
      proof (cases "fdiv one sample_rate")
        case (Inl e)
        then show ?thesis
          using False lq q Inr by (auto simp: it intro: exI [of _ 1])
      next
        case per: (Inr period)
        show ?thesis
        proof (cases "positive_sleep_error (max0 (fsub period (fsub now sample_start)))")
          case (Some e)
          then show ?thesis
            using False lq q Inr per by (auto simp: it intro: exI [of _ 1])
        next
          case noinf: None
          let ?st = "st\<lparr>sample_count := (if truthy response then sample_count st + 1 else sample_count st),
                          issued := issued st @ [?q],
                          sleeps := sleeps st @ [max0 (fsub period (fsub now sample_start))]\<rparr>"
          have pos: "0 < sample_count ?st" using Cons.prems by simp
          from Cons.IH [OF pos, of c']
          obtain k where k: "issued (fst (lan_stream_loop command duration sample_rate start_time clock ?st c'))
              = issued ?st @ replicate k ''REREAD?''"
            by blast
          have "issued ?st @ replicate k ''REREAD?'' = issued st @ replicate (Suc k) ''REREAD?''"
            using q by simp
          with k have "issued (fst (lan_stream_loop command duration sample_rate start_time (it # clock) st c))
              = issued st @ replicate (Suc k) ''REREAD?''"
            using False lq Inr per noinf by (simp add: it)
          then show ?thesis by blast
        qed
      qed
    qed
  qed
qed

text \<open>
  C5. The claim: when \<^verbatim>\<open>REREAD?\<close> yields no data, the engine falls back once to the full
  request before it gives up on the sample. \<^verbatim>\<open>stream_data\<close> does not: with an instrument
  that answers \<^verbatim>\<open>1.0\<close>, then an empty line, then \<^verbatim>\<open>2.0\<close>, and three iterations before
  the interrupt, the queries issued are the full request, \<^verbatim>\<open>REREAD?\<close> and \<^verbatim>\<open>REREAD?\<close>
  again, and two samples are counted.
\<close>

theorem lan_stream_no_fallback:
  "fst (lan_stream_data [''CH1''] [''V''] fzero (decimal 5 0) fzero
         [(fzero, fzero), (fzero, fzero), (fzero, fzero)]
         \<lparr>connected = True, socket = Some (reply_lines [''1.0'', [], ''2.0''])\<rparr>)
     = \<lparr>stopped = Interrupted, sample_count = 2,
        issued = [''READ?,ch1:VOLTS:ACDC'', ''REREAD?'', ''REREAD?''],
        sleeps = [decimal 2 (- 1), decimal 2 (- 1), decimal 2 (- 1)]\<rparr>"
proof -
  have d: "\<not> duration_over fzero fzero fzero"
    by (simp add: float_defs number_defs)
  have s: "max0 (fsub (decimal 2 (- 1)) (fsub fzero fzero)) = decimal 2 (- 1)"
    by (simp add: float_defs number_defs)
  have n: "positive_sleep_error (decimal 2 (- 1)) = None"
    by (simp add: float_defs number_defs)
  show ?thesis
    using d s n one_over_five
    by (simp add: stream_defs lan_defs codec_defs string_defs)
qed

text \<open>
  The worker of the web interface, in the same situation (an empty line answers
  \<^verbatim>\<open>REREAD?\<close>), issues the full request and takes the sample from its reply.
\<close>

lemma worker_sample_falls_back:
  "worker_sample [''CH1''] [''V''] 1
     \<lparr>connected = True, socket = Some (reply_lines [[], ''2.0''])\<rparr>
   = (Inr (Some [(''CH1_V'', PyFloat (decimal 2 0))]),
      \<lparr>connected = True,
       socket = Some \<lparr>incoming = [], send_results = [],
                      sent = ''REREAD?'' @ [LF] @ ''READ?,ch1:VOLTS:ACDC'' @ [LF],
                      closed = False\<rparr>\<rparr>)"
  by (simp add: worker_sample_def lan_defs codec_defs string_defs number_defs)

text \<open>
  C6. The claim: in every client's \<^verbatim>\<open>stream_data\<close> the sleep of an iteration is
  \<^verbatim>\<open>max(0, 1/sample_rate - elapsed)\<close>. The RS232 client does not measure the elapsed
  time: at the rate 1.0, whatever the clock reads, the iteration sleeps 1.0 s.
\<close>

theorem rs232_stream_sleep_ignores_elapsed:
  "sleeps (fst (rs232_stream_data [''CH1''] [''V''] fzero one start_time [(check_time, stamp_time)]
                  \<lparr>connected = True, connection = Some (reply_port ''1.0'')\<rparr>)) = [one]"
proof -
  have d: "\<not> duration_over fzero check_time start_time"
    by (cases "fsub check_time start_time") (simp_all add: float_defs number_defs)
  have e: "sleep_error one = None"
    by (simp add: float_defs number_defs)
  show ?thesis
    using d e one_over_one
    by (simp add: stream_defs string_defs)
qed

lemma lan_stream_sleep:
  "sleeps (fst (lan_stream_data [''CH1''] [''V''] fzero one (decimal 10 0)
                  [(decimal 10 0, decimal 1025 (- 2))]
                  \<lparr>connected = True, socket = Some (reply_lines [''1.0''])\<rparr>)) = [decimal 75 (- 2)]"
proof -
  have d: "\<not> duration_over fzero (decimal 10 0) (decimal 10 0)"
    by (simp add: float_defs number_defs)
  have s: "max0 (fsub one (fsub (decimal 1025 (- 2)) (decimal 10 0))) = decimal 75 (- 2)"
    by (simp add: float_defs number_defs)
  have n: "positive_sleep_error (decimal 75 (- 2)) = None"
    by (simp add: float_defs number_defs)
  show ?thesis
    using d s n one_over_one
    by (simp add: stream_defs lan_defs codec_defs string_defs)
qed

section \<open>Formatting with units\<close>

lemma format_zero_volts:
  "format_measurement (PyFloat (decimal 0 0)) ''V'' True = ''0.000 V''"
  by (simp add: units_defs number_defs)

lemma format_1000_volts:
  "format_measurement (PyFloat (decimal 1000 0)) ''V'' True = ''1.000 kV''"
  by (simp add: units_defs number_defs)

lemma format_450_microvolts:
  "format_measurement (PyFloat (decimal 45 (- 5))) ''V'' True = ''450 '' @ micro @ ''V''"
  by (simp add: units_defs number_defs)

lemma format_1250_watts:
  "format_measurement (PyFloat (decimal 12505 (- 1))) ''W'' True = ''1.250 kW''"
  by (simp add: units_defs number_defs)

lemma format_decade_boundaries:
  "format_measurement (PyFloat (decimal 1 0)) ''V'' True = ''1.000 V''"
  "format_measurement (PyFloat (decimal 1 (- 3))) ''V'' True = ''1.0 mV''"
  "format_measurement (PyFloat (decimal 1 (- 6))) ''V'' True = ''1 '' @ micro @ ''V''"
  "format_measurement (PyFloat (decimal 1000000 0)) ''W'' True = ''1.000 MW''"
  by (simp_all add: units_defs number_defs)

text \<open>
  C7, as amended. \<^verbatim>\<open>format_measurement\<close> scales by decade thresholds compared with
  \<^verbatim>\<open>>=\<close>: \<^verbatim>\<open>format_measurement(0.0, 'V')\<close> is \<^verbatim>\<open>0.000 V\<close>,
  \<^verbatim>\<open>format_measurement(1000.0, 'V')\<close> is \<^verbatim>\<open>1.000 kV\<close>,
  \<^verbatim>\<open>format_measurement(0.00045, 'V')\<close> is \<^verbatim>\<open>450\<close> and the unit microvolt, and
  \<^verbatim>\<open>format_measurement(1250.5, 'W')\<close> is \<^verbatim>\<open>1.250 kW\<close>; the values 1.0, 0.001 and
  0.000001 volt and 1000000.0 watt are in the upper decade each.
\<close>

theorem format_measurement_examples:
  "format_measurement (PyFloat (decimal 0 0)) ''V'' True = ''0.000 V'' \<and>
   format_measurement (PyFloat (decimal 1000 0)) ''V'' True = ''1.000 kV'' \<and>
   format_measurement (PyFloat (decimal 45 (- 5))) ''V'' True = ''450 '' @ micro @ ''V'' \<and>
   format_measurement (PyFloat (decimal 12505 (- 1))) ''W'' True = ''1.250 kW'' \<and>
   format_measurement (PyFloat (decimal 1 0)) ''V'' True = ''1.000 V'' \<and>
   format_measurement (PyFloat (decimal 1 (- 3))) ''V'' True = ''1.0 mV'' \<and>
   format_measurement (PyFloat (decimal 1 (- 6))) ''V'' True = ''1 '' @ micro @ ''V'' \<and>
   format_measurement (PyFloat (decimal 1000000 0)) ''W'' True = ''1.000 MW''"
  using format_zero_volts format_1000_volts format_450_microvolts format_1250_watts
    format_decade_boundaries
  by simp

text \<open>
  C7 as stated fails: 0.00045 V is below the millivolt threshold 0.001, and the binary64
  quotient 1250.5 / 1000 is below 1.2505 and rounds to 1.250.
\<close>

theorem format_measurement_counterexample:
  "format_measurement (PyFloat (decimal 45 (- 5))) ''V'' True \<noteq> ''450.0 mV'' \<and>
   format_measurement (PyFloat (decimal 12505 (- 1))) ''W'' True \<noteq> ''1.251 kW''"
  by (simp add: format_450_microvolts format_1250_watts micro_def)

end
